theory Spec2Isabelle
  imports Complex_Main "HOL-Library.Sublist"
begin

section \<open>Bot Saham: a webhook-driven stock quote bot\<close>

text \<open>
  Shallow embedding of \<^verbatim>\<open>bot_saham.py\<close>. Module-level dictionaries (\<^verbatim>\<open>cache\<close>,
  \<^verbatim>\<open>rate_limit\<close>) are maps that each operation takes and returns; every reading of
  \<^verbatim>\<open>time.time()\<close> is an explicit argument \<open>now\<close>. Clock readings are finite floats and are
  modelled by their exact rational value; arithmetic on them is exact in the model.
\<close>

subsection \<open>Rate limiter\<close>

type_synonym rate_table = "string \<rightharpoonup> rat"

text \<open>Python's \<^verbatim>\<open>int(x)\<close> on a float truncates towards zero.\<close>

definition py_int :: "rat \<Rightarrow> int" where
  "py_int x = (if 0 \<le> x then \<lfloor>x\<rfloor> else \<lceil>x\<rceil>)"

text \<open>
  \<^verbatim>\<open>rate_limit_ok(chat_id)\<close> with \<^verbatim>\<open>RATE_LIMIT_SECONDS\<close> and the clock reading as arguments.
  The test \<^verbatim>\<open>if last and ...\<close> is Python truthiness: it fails for a missing entry and also
  for a recorded \<^verbatim>\<open>0.0\<close>.
\<close>

definition rate_limit_ok ::
  "int \<Rightarrow> rat \<Rightarrow> string \<Rightarrow> rate_table \<Rightarrow> (bool \<times> int) \<times> rate_table" where
  "rate_limit_ok RATE_LIMIT_SECONDS now chat_id rate_limit =
     (case rate_limit chat_id of
        Some last_at \<Rightarrow>
          if last_at \<noteq> 0 \<and> now - last_at < of_int RATE_LIMIT_SECONDS
          then ((False, max 1 (py_int (of_int RATE_LIMIT_SECONDS - (now - last_at)))), rate_limit)
          else ((True, 0), rate_limit(chat_id \<mapsto> now))
      | None \<Rightarrow> ((True, 0), rate_limit(chat_id \<mapsto> now)))"

text \<open>Successive calls for one conversation at the clock readings \<open>ts\<close>, in order.\<close>

fun rate_limit_run ::
  "int \<Rightarrow> string \<Rightarrow> rat list \<Rightarrow> rate_table \<Rightarrow> (bool \<times> int) list \<times> rate_table" where
  "rate_limit_run w c [] tbl = ([], tbl)"
| "rate_limit_run w c (t # ts) tbl =
     (case rate_limit_ok w t c tbl of
        (r, tbl') \<Rightarrow> (case rate_limit_run w c ts tbl' of (rs, tbl'') \<Rightarrow> (r # rs, tbl'')))"

subsection \<open>Cache\<close>

type_synonym 'v cache = "string \<rightharpoonup> (rat \<times> 'v)"

text \<open>
  \<^verbatim>\<open>cache_get(key)\<close>: a stored entry is a non-empty tuple, hence always truthy, so
  \<^verbatim>\<open>if not entry\<close> is exactly the missing-key case.
\<close>

definition cache_get :: "int \<Rightarrow> rat \<Rightarrow> string \<Rightarrow> 'v cache \<Rightarrow> 'v option \<times> 'v cache" where
  "cache_get CACHE_TTL_SECONDS now key cache =
     (case cache key of
        None \<Rightarrow> (None, cache)
      | Some (cached_at, data) \<Rightarrow>
          if now - cached_at > of_int CACHE_TTL_SECONDS
          then (None, cache(key := None))
          else (Some data, cache))"

definition cache_set :: "rat \<Rightarrow> string \<Rightarrow> 'v \<Rightarrow> 'v cache \<Rightarrow> 'v cache" where
  "cache_set now key val cache = cache(key \<mapsto> (now, val))"

subsection \<open>Strings\<close>

text \<open>
  A Python \<^verbatim>\<open>str\<close> is modelled as a \<^typ>\<open>string\<close>; the model of the text operations is
  exact on ASCII text (characters outside ASCII are kept as they are and count neither as
  whitespace nor as word characters), and the non-ASCII literals of the source are written
  as their UTF-8 bytes.
\<close>

definition ascii_lowercase :: string where
  "ascii_lowercase = ''abcdefghijklmnopqrstuvwxyz''"

definition ascii_uppercase :: string where
  "ascii_uppercase = ''ABCDEFGHIJKLMNOPQRSTUVWXYZ''"

definition ascii_digits :: string where
  "ascii_digits = ''0123456789''"

text \<open>\<^verbatim>\<open>str.isspace\<close> on ASCII: tab, LF, VT, FF, CR, the separators 0x1C..0x1F and the space.\<close>

definition is_space :: "char \<Rightarrow> bool" where
  "is_space c \<longleftrightarrow>
     c \<in> set [CHR 0x09, CHR 0x0A, CHR 0x0B, CHR 0x0C, CHR 0x0D,
               CHR 0x1C, CHR 0x1D, CHR 0x1E, CHR 0x1F, CHR '' '']"

definition lower_char :: "char \<Rightarrow> char" where
  "lower_char c = (case map_of (zip ascii_uppercase ascii_lowercase) c of Some d \<Rightarrow> d | None \<Rightarrow> c)"

definition upper_char :: "char \<Rightarrow> char" where
  "upper_char c = (case map_of (zip ascii_lowercase ascii_uppercase) c of Some d \<Rightarrow> d | None \<Rightarrow> c)"

definition lower :: "string \<Rightarrow> string" where
  "lower s = map lower_char s"

definition upper :: "string \<Rightarrow> string" where
  "upper s = map upper_char s"

definition rstrip :: "string \<Rightarrow> string" where
  "rstrip s = rev (dropWhile is_space (rev s))"

definition strip :: "string \<Rightarrow> string" where
  "strip s = rstrip (dropWhile is_space s)"

definition startswith :: "string \<Rightarrow> string \<Rightarrow> bool" where
  "startswith s p \<longleftrightarrow> take (length p) s = p"

definition endswith :: "string \<Rightarrow> string \<Rightarrow> bool" where
  "endswith s p \<longleftrightarrow> length p \<le> length s \<and> drop (length s - length p) s = p"

text \<open>\<^verbatim>\<open>sep.join(parts)\<close>.\<close>

fun join :: "string \<Rightarrow> string list \<Rightarrow> string" where
  "join sep [] = []"
| "join sep [x] = x"
| "join sep (x # y # ys) = x @ sep @ join sep (y # ys)"

text \<open>The regular expression class \<^verbatim>\<open>\w\<close> on ASCII.\<close>

definition is_word_char :: "char \<Rightarrow> bool" where
  "is_word_char c \<longleftrightarrow> c \<in> set (ascii_lowercase @ ascii_uppercase @ ascii_digits @ ''_'')"

subsection \<open>Command parser\<close>

text \<open>
  The character class of the symbol pattern. The source writes it, in a raw string, as
  \<^verbatim>\<open>[a-z0-9\\.]\<close>: lower-case letters, digits, an escaped backslash and a dot.
\<close>

definition symbol_class :: "char \<Rightarrow> bool" where
  "symbol_class c \<longleftrightarrow> c \<in> set (ascii_lowercase @ ascii_digits @ [CHR 0x5C, CHR ''.''])"

text \<open>
  \<^verbatim>\<open>re.match(r"^!ihsg\b", lower)\<close>: the text starts with \<^verbatim>\<open>!ihsg\<close> and a word boundary
  follows the \<^verbatim>\<open>g\<close>, that is, the text ends there or goes on with a non-word character.
\<close>

definition match_ihsg :: "string \<Rightarrow> bool" where
  "match_ihsg s \<longleftrightarrow>
     startswith s ''!ihsg'' \<and> (case drop 5 s of [] \<Rightarrow> True | c # _ \<Rightarrow> \<not> is_word_char c)"

text \<open>
  \<^verbatim>\<open>re.match(r"^\$([a-z0-9\\.]+)", lower)\<close>: \<open>Some\<close> of group 1, the longest non-empty run
  of class characters after the dollar sign, or \<open>None\<close> when there is no match.
\<close>

definition match_symbol :: "string \<Rightarrow> string option" where
  "match_symbol s =
     (case s of
        [] \<Rightarrow> None
      | c # rest \<Rightarrow>
          if c = CHR ''$'' \<and> takeWhile symbol_class rest \<noteq> []
          then Some (takeWhile symbol_class rest) else None)"

definition parse_command :: "string \<Rightarrow> string option \<times> string option" where
  "parse_command text =
     (let cleaned = strip text;
          lower = lower cleaned
      in if startswith lower ''!help'' then (Some ''help'', None)
         else if match_ihsg lower then (Some ''ihsg'', None)
         else (case match_symbol lower of
                 Some g \<Rightarrow>
                   (let symbol = upper g;
                        symbol = (if endswith symbol ''.JK''
                                  then take (length symbol - 3) symbol else symbol)
                    in (Some ''quote'', Some symbol))
               | None \<Rightarrow> (None, None)))"

text \<open>
  The parser as the specification words it (section 4.1): the symbol class is
  \<^verbatim>\<open>[a-z0-9.]\<close>. Used only to compare with \<^const>\<open>parse_command\<close>.
\<close>

definition spec_symbol_class :: "char \<Rightarrow> bool" where
  "spec_symbol_class c \<longleftrightarrow> c \<in> set (ascii_lowercase @ ascii_digits @ ''.'')"

definition spec_match_symbol :: "string \<Rightarrow> string option" where
  "spec_match_symbol s =
     (case s of
        [] \<Rightarrow> None
      | c # rest \<Rightarrow>
          if c = CHR ''$'' \<and> takeWhile spec_symbol_class rest \<noteq> []
          then Some (takeWhile spec_symbol_class rest) else None)"

definition spec_parse_command :: "string \<Rightarrow> string option \<times> string option" where
  "spec_parse_command text =
     (let lower = lower (strip text)
      in if startswith lower ''!help'' then (Some ''help'', None)
         else if match_ihsg lower then (Some ''ihsg'', None)
         else (case spec_match_symbol lower of
                 Some g \<Rightarrow>
                   (Some ''quote'',
                    Some (if endswith (upper g) ''.JK''
                          then take (length (upper g) - 3) (upper g) else upper g))
               | None \<Rightarrow> (None, None)))"

subsection \<open>Floats\<close>

text \<open>
  A Python float is an IEEE 754 binary64 value. \<open>Fin x\<close> is the finite double whose exact
  value is the rational \<open>x\<close> (with \<open>Fin 0\<close> the positive zero), \<open>NegZero\<close> is \<^verbatim>\<open>-0.0\<close>, and
  the infinities and NaN are as in IEEE 754. Every arithmetic operation computes the exact
  result and rounds it to the nearest double, ties to the even significand.
\<close>

datatype pyfloat = Fin rat | NegZero | PInf | NInf | NaN

datatype py_error = OverflowError | ValueError | ZeroDivisionError

text \<open>Sequencing of computations that may raise.\<close>

definition bindE :: "py_error + 'a \<Rightarrow> ('a \<Rightarrow> py_error + 'b) \<Rightarrow> py_error + 'b" where
  "bindE m f = (case m of Inl e \<Rightarrow> Inl e | Inr v \<Rightarrow> f v)"

text \<open>Rounding to the nearest integer, ties to the even one.\<close>

definition round_half_even :: "rat \<Rightarrow> int" where
  "round_half_even q =
     (let n = \<lfloor>q\<rfloor>; d = q - of_int n
      in if d < 1/2 then n else if 1/2 < d then n + 1 else if even n then n else n + 1)"

text \<open>The number of binary digits of a natural number.\<close>

fun bitlen :: "nat \<Rightarrow> nat" where
  "bitlen n = (if n = 0 then 0 else Suc (bitlen (n div 2)))"

declare bitlen.simps [simp del]

text \<open>For a positive \<open>a\<close>, the exponent \<open>e\<close> with \<open>2^e \<le> a < 2^(e+1)\<close>.\<close>

definition binade :: "rat \<Rightarrow> int" where
  "binade a =
     (if 1 \<le> a then int (bitlen (nat \<lfloor>a\<rfloor>)) - 1 else - int (bitlen (nat (\<lceil>1 / a\<rceil> - 1))))"

definition pow2 :: "int \<Rightarrow> rat" where
  "pow2 k = (if 0 \<le> k then 2 ^ nat k else 1 / 2 ^ nat (- k))"

text \<open>
  The spacing of the doubles around a positive \<open>a\<close>: \<open>2^(e-52)\<close> in the binade \<open>e\<close>, and
  \<open>2^(-1074)\<close> below the normal range.
\<close>

definition spacing :: "rat \<Rightarrow> rat" where
  "spacing a = pow2 (max (binade a) (- 1022) - 52)"

text \<open>
  The magnitude of the double nearest to a positive \<open>a\<close>, a multiple of the spacing around
  \<open>a\<close>. The result \<open>2^1024\<close> stands for overflow.
\<close>

definition round_mag :: "rat \<Rightarrow> rat" where
  "round_mag a = of_int (round_half_even (a / spacing a)) * spacing a"


text \<open>The double nearest to a non-zero exact result.\<close>

definition round_double :: "rat \<Rightarrow> pyfloat" where
  "round_double x =
     (let r = round_mag \<bar>x\<bar>
      in if pow2 1024 \<le> r then (if x < 0 then NInf else PInf)
         else if r = 0 then (if x < 0 then NegZero else Fin 0)
         else Fin (if x < 0 then - r else r))"

text \<open>The same for any exact result; \<open>neg_zero\<close> says which zero an exact zero is.\<close>

definition fround :: "bool \<Rightarrow> rat \<Rightarrow> pyfloat" where
  "fround neg_zero x =
     (if x = 0 then (if neg_zero then NegZero else Fin 0) else round_double x)"

fun is_finite :: "pyfloat \<Rightarrow> bool" where
  "is_finite (Fin _) \<longleftrightarrow> True"
| "is_finite NegZero \<longleftrightarrow> True"
| "is_finite _ \<longleftrightarrow> False"

text \<open>The exact value of a finite float, and the sign bit of a float that is not NaN.\<close>

fun fval :: "pyfloat \<Rightarrow> rat" where
  "fval (Fin x) = x"
| "fval _ = 0"

fun fsignbit :: "pyfloat \<Rightarrow> bool" where
  "fsignbit (Fin x) \<longleftrightarrow> x < 0"
| "fsignbit NegZero \<longleftrightarrow> True"
| "fsignbit NInf \<longleftrightarrow> True"
| "fsignbit _ \<longleftrightarrow> False"

definition is_zero :: "pyfloat \<Rightarrow> bool" where
  "is_zero a \<longleftrightarrow> a = Fin 0 \<or> a = NegZero"

fun fneg :: "pyfloat \<Rightarrow> pyfloat" where
  "fneg (Fin a) = (if a = 0 then NegZero else Fin (- a))"
| "fneg NegZero = Fin 0"
| "fneg PInf = NInf"
| "fneg NInf = PInf"
| "fneg NaN = NaN"

text \<open>\<^verbatim>\<open>a + b\<close>: an exact zero sum is \<^verbatim>\<open>-0.0\<close> only when both operands are negative zeros.\<close>

definition fadd :: "pyfloat \<Rightarrow> pyfloat \<Rightarrow> pyfloat" where
  "fadd a b =
     (if a = NaN \<or> b = NaN then NaN
      else if is_finite a \<and> is_finite b
      then fround (fsignbit a \<and> fsignbit b) (fval a + fval b)
      else if is_finite a then b
      else if is_finite b then a
      else if a = b then a else NaN)"

definition fsub :: "pyfloat \<Rightarrow> pyfloat \<Rightarrow> pyfloat" where
  "fsub a b = fadd a (fneg b)"

definition fmul :: "pyfloat \<Rightarrow> pyfloat \<Rightarrow> pyfloat" where
  "fmul a b =
     (if a = NaN \<or> b = NaN then NaN
      else if is_finite a \<and> is_finite b
      then fround (fsignbit a \<noteq> fsignbit b) (fval a * fval b)
      else if is_zero a \<or> is_zero b then NaN
      else if fsignbit a \<noteq> fsignbit b then NInf else PInf)"

text \<open>The quotient \<^verbatim>\<open>a / b\<close> for a divisor that is not a zero.\<close>

definition fquot :: "pyfloat \<Rightarrow> pyfloat \<Rightarrow> pyfloat" where
  "fquot a b =
     (if a = NaN \<or> b = NaN then NaN
      else if is_finite a \<and> is_finite b
      then fround (fsignbit a \<noteq> fsignbit b) (fval a / fval b)
      else if is_finite a then (if fsignbit a \<noteq> fsignbit b then NegZero else Fin 0)
      else if is_finite b then (if fsignbit a \<noteq> fsignbit b then NInf else PInf)
      else NaN)"

text \<open>\<^verbatim>\<open>a / b\<close>: a zero divisor raises.\<close>

definition fdiv :: "pyfloat \<Rightarrow> pyfloat \<Rightarrow> py_error + pyfloat" where
  "fdiv a b = (if is_zero b then Inl ZeroDivisionError else Inr (fquot a b))"

text \<open>
  \<^verbatim>\<open>a >= 0\<close>, \<^verbatim>\<open>a == b\<close>, \<^verbatim>\<open>a < b\<close> and \<^verbatim>\<open>a <= b\<close>; every comparison with NaN is false and
  the two zeros are equal.
\<close>

fun fge0 :: "pyfloat \<Rightarrow> bool" where
  "fge0 (Fin a) \<longleftrightarrow> 0 \<le> a"
| "fge0 NegZero \<longleftrightarrow> True"
| "fge0 PInf \<longleftrightarrow> True"
| "fge0 NInf \<longleftrightarrow> False"
| "fge0 NaN \<longleftrightarrow> False"

definition feq :: "pyfloat \<Rightarrow> pyfloat \<Rightarrow> bool" where
  "feq a b \<longleftrightarrow> a \<noteq> NaN \<and> b \<noteq> NaN \<and> (a = b \<or> (is_finite a \<and> is_finite b \<and> fval a = fval b))"



text \<open>
  A value handed to \<^verbatim>\<open>safe_float\<close>: one that \<^verbatim>\<open>float()\<close> rejects with \<^verbatim>\<open>TypeError\<close> or
  \<^verbatim>\<open>ValueError\<close> (\<^verbatim>\<open>None\<close>, a missing column, text that is no number), or one it converts.
\<close>

datatype cell = NotNumeric | Numeric pyfloat

fun safe_float :: "cell \<Rightarrow> pyfloat option" where
  "safe_float NotNumeric = None"
| "safe_float (Numeric NaN) = None"
| "safe_float (Numeric number) = Some number"

subsection \<open>Formatter\<close>

definition digit_char :: "nat \<Rightarrow> char" where
  "digit_char d = ascii_digits ! (d mod 10)"

text \<open>The decimal digits of a natural number, and the digits with \<^verbatim>\<open>,\<close> between groups of three.\<close>

fun decimal :: "nat \<Rightarrow> string" where
  "decimal n = (if n < 10 then [digit_char n] else decimal (n div 10) @ [digit_char (n mod 10)])"

fun group_thousands :: "string \<Rightarrow> string" where
  "group_thousands ds =
     (if length ds \<le> 3 then ds
      else group_thousands (take (length ds - 3) ds) @ '','' @ drop (length ds - 3) ds)"

text \<open>\<^verbatim>\<open>f"{n:,}"\<close> for an integer \<open>n\<close>.\<close>

definition format_int_grouped :: "int \<Rightarrow> string" where
  "format_int_grouped n = (if n < 0 then ''-'' else []) @ group_thousands (decimal (nat \<bar>n\<bar>))"

text \<open>
  Fixed-point conversion rounds the exact value of the float to the nearest multiple of
  \<open>1/100\<close>, ties to the even one.
\<close>

definition hundredths :: "rat \<Rightarrow> nat" where
  "hundredths x = nat (round_half_even (\<bar>x\<bar> * 100))"

text \<open>\<^verbatim>\<open>f"{x:.2f}"\<close> and \<^verbatim>\<open>f"{x:,.2f}"\<close> for a finite \<open>x\<close>; the flag says whether to group.\<close>

definition format_fixed2 :: "bool \<Rightarrow> rat \<Rightarrow> string" where
  "format_fixed2 grouped x =
     (let h = hundredths x;
          whole = decimal (h div 100)
      in (if x < 0 then ''-'' else []) @ (if grouped then group_thousands whole else whole) @
         ''.'' @ [digit_char (h mod 100 div 10), digit_char (h mod 10)])"

text \<open>\<^verbatim>\<open>f"{pct:.2f}"\<close> for any float.\<close>

fun format_2f :: "pyfloat \<Rightarrow> string" where
  "format_2f (Fin x) = format_fixed2 False x"
| "format_2f NegZero = ''-0.00''"
| "format_2f PInf = ''inf''"
| "format_2f NInf = ''-inf''"
| "format_2f NaN = ''nan''"

text \<open>\<^verbatim>\<open>int(value)\<close> on a float raises on the infinities and on NaN.\<close>

fun float_to_int :: "pyfloat \<Rightarrow> py_error + int" where
  "float_to_int (Fin x) = Inr (py_int x)"
| "float_to_int NegZero = Inr 0"
| "float_to_int PInf = Inl OverflowError"
| "float_to_int NInf = Inl OverflowError"
| "float_to_int NaN = Inl ValueError"

definition format_number :: "pyfloat option \<Rightarrow> py_error + string" where
  "format_number v =
     (case v of
        None \<Rightarrow> Inr ''-''
      | Some val \<Rightarrow>
          bindE (float_to_int val) (\<lambda>i.
            if feq val (Fin (of_int i)) then Inr (format_int_grouped i)
            else case val of Fin x \<Rightarrow> Inr (format_fixed2 True x) | _ \<Rightarrow> Inr (format_2f val)))"

definition format_change :: "pyfloat option \<Rightarrow> pyfloat option \<Rightarrow> py_error + string" where
  "format_change change pct =
     (case (change, pct) of
        (Some c, Some p) \<Rightarrow>
          (let sign = (if fge0 c then ''+'' else [])
           in bindE (format_number (Some c)) (\<lambda>n.
                Inr (sign @ n @ '' ('' @ sign @ format_2f p @ ''%)'')))
      | _ \<Rightarrow> Inr ''-'')"

subsection \<open>Cached results\<close>

text \<open>
  The two dictionaries the quote service builds and caches. A field read with \<^verbatim>\<open>.get\<close> is
  optional: \<open>None\<close> is Python's \<^verbatim>\<open>None\<close>.
\<close>

record quote =
  q_open :: "pyfloat option"
  q_high :: "pyfloat option"
  q_low :: "pyfloat option"
  q_close :: "pyfloat option"
  q_volume :: "pyfloat option"
  q_timestamp :: "string option"
  q_prev_close :: "pyfloat option"

record levels =
  sr_s1 :: "pyfloat option"
  sr_s2 :: "pyfloat option"
  sr_s3 :: "pyfloat option"
  sr_r1 :: "pyfloat option"
  sr_r2 :: "pyfloat option"
  sr_r3 :: "pyfloat option"
  sr_time :: "string option"

datatype payload = QuoteData quote | SRData levels

text \<open>
  Both kinds live in the one \<^verbatim>\<open>cache\<close> dictionary. Reading a quote key with \<^verbatim>\<open>.get\<close> from a
  levels dictionary (or the other way round) yields \<^verbatim>\<open>None\<close>, since the key sets are disjoint.
\<close>

definition no_quote :: quote where
  "no_quote = \<lparr>q_open = None, q_high = None, q_low = None, q_close = None, q_volume = None,
               q_timestamp = None, q_prev_close = None\<rparr>"

definition no_levels :: levels where
  "no_levels = \<lparr>sr_s1 = None, sr_s2 = None, sr_s3 = None, sr_r1 = None, sr_r2 = None,
                sr_r3 = None, sr_time = None\<rparr>"

fun quote_of :: "payload \<Rightarrow> quote" where
  "quote_of (QuoteData q) = q"
| "quote_of (SRData _) = no_quote"

fun levels_of :: "payload \<Rightarrow> levels" where
  "levels_of (SRData l) = l"
| "levels_of (QuoteData _) = no_levels"

subsection \<open>Message assembly\<close>

definition newline :: string where
  "newline = [CHR 0x0A]"

definition footer :: string where
  "footer = [CHR 0xC2, CHR 0xA9] @ '' Haris Stockbit''"

text \<open>The support and resistance block; the lines are formatted in the order of the source.\<close>

definition sr_lines :: "string \<Rightarrow> payload option \<Rightarrow> py_error + string list" where
  "sr_lines symbol sr =
     (case sr of
        None \<Rightarrow> Inr []
      | Some d \<Rightarrow>
          bindE (format_number (sr_s1 (levels_of d))) (\<lambda>s1.
          bindE (format_number (sr_s2 (levels_of d))) (\<lambda>s2.
          bindE (format_number (sr_s3 (levels_of d))) (\<lambda>s3.
          bindE (format_number (sr_r1 (levels_of d))) (\<lambda>r1.
          bindE (format_number (sr_r2 (levels_of d))) (\<lambda>r2.
          bindE (format_number (sr_r3 (levels_of d))) (\<lambda>r3.
            Inr [[],
                 [CHR 0xF0, CHR 0x9F, CHR 0x93, CHR 0x8A] @ '' SUPPORT & RESISTANCE '' @
                   [CHR 0xE2, CHR 0x80, CHR 0x94] @ '' '' @ symbol @ '' (1 Day)'',
                 [],
                 [CHR 0xF0, CHR 0x9F, CHR 0x94, CHR 0xBB] @ '' Support'',
                 ''S1: '' @ s1,
                 ''S2: '' @ s2,
                 ''S3: '' @ s3,
                 [],
                 [CHR 0xF0, CHR 0x9F, CHR 0x94, CHR 0xBA] @ '' Resistance'',
                 ''R1: '' @ r1,
                 ''R2: '' @ r2,
                 ''R3: '' @ r3,
                 [],
                 [CHR 0xE2, CHR 0x8F, CHR 0xB1] @ '' '' @
                   (case sr_time (levels_of d) of
                      Some t \<Rightarrow> if t \<noteq> [] then t else ''-''
                    | None \<Rightarrow> ''-''),
                 footer])))))))"

text \<open>
  \<^verbatim>\<open>pct\<close> of \<^verbatim>\<open>format_quote_text\<close>: absent when the close or the open is absent or the open
  is zero, else \<^verbatim>\<open>(change / open_price) * 100\<close>.
\<close>

definition percent_change ::
  "pyfloat option \<Rightarrow> pyfloat option \<Rightarrow> py_error + pyfloat option" where
  "percent_change close_v open_price =
     (case (close_v, open_price) of
        (Some c, Some p) \<Rightarrow>
          if feq p (Fin 0) then Inr None
          else bindE (fdiv (fsub c p) p) (\<lambda>q. Inr (Some (fmul q (Fin 100))))
      | _ \<Rightarrow> Inr None)"

definition format_quote_text ::
  "string \<Rightarrow> string \<Rightarrow> payload \<Rightarrow> string option \<Rightarrow> payload option \<Rightarrow> py_error + string" where
  "format_quote_text symbol exchange data display sr =
     (let close_v = q_close (quote_of data);
          open_price = q_open (quote_of data);
          change = (case (close_v, open_price) of
                      (Some c, Some p) \<Rightarrow> Some (fsub c p)
                    | _ \<Rightarrow> None)
      in bindE (percent_change close_v open_price) (\<lambda>pct.
         let header = (case display of
                         Some d \<Rightarrow> if d \<noteq> [] then d else symbol @ '' ('' @ exchange @ '')''
                       | None \<Rightarrow> symbol @ '' ('' @ exchange @ '')'')
         in bindE (format_number close_v) (\<lambda>s_close.
            bindE (format_change change pct) (\<lambda>s_change.
            bindE (format_number (q_open (quote_of data))) (\<lambda>s_open.
            bindE (format_number (q_high (quote_of data))) (\<lambda>s_high.
            bindE (format_number (q_low (quote_of data))) (\<lambda>s_low.
            bindE (format_number (q_volume (quote_of data))) (\<lambda>s_volume.
            let lines = [header,
                         ''Close: '' @ s_close,
                         ''Change: '' @ s_change,
                         ''O/H/L: '' @ s_open @ '' / '' @ s_high @ '' / '' @ s_low,
                         ''Volume: '' @ s_volume];
                lines = lines @ (case q_timestamp (quote_of data) of
                                   Some t \<Rightarrow> if t \<noteq> [] then [''Time: '' @ t] else []
                                 | None \<Rightarrow> [])
            in bindE (sr_lines symbol sr) (\<lambda>block.
                 Inr (join newline (lines @ block)))))))))))"

definition help_text :: string where
  "help_text = join newline
     [''Panduan cepat:'',
      ''1) Kirim kode saham dengan format: $KODE (contoh: $BBCA)'',
      ''2) Lihat IHSG: !ihsg'',
      ''3) Lihat bantuan: !help'',
      [],
      ''Catatan:'',
      ''- Data TradingView timeframe 1D'',
      ''- Output S/R berbasis pivot harian'']"

text \<open>\<^verbatim>\<open>needle in haystack\<close> for strings.\<close>

fun contains :: "string \<Rightarrow> string \<Rightarrow> bool" where
  "contains [] needle \<longleftrightarrow> needle = []"
| "contains (c # cs) needle \<longleftrightarrow> startswith (c # cs) needle \<or> contains cs needle"

subsection \<open>Process state and environment\<close>

text \<open>
  The module-level state: the two dictionaries, the lazily created upstream client with its
  sticky error, and the texts handed to the gateway's \<^verbatim>\<open>sendText\<close> endpoint, oldest first.
\<close>

record world =
  st_cache :: "payload cache"
  st_rate_limit :: rate_table
  st_tv_client :: bool
  st_tv_client_error :: "string option"
  st_outbox :: "(string \<times> string) list"

record config =
  TV_INTERVAL :: string
  TV_BARS :: int
  IHSG_SYMBOL :: string
  CACHE_TTL_SECONDS :: int
  RATE_LIMIT_SECONDS :: int

datatype interval = in_1_minute | in_5_minute | in_15_minute | in_1_hour | in_daily

definition INTERVAL_MAP :: "string \<rightharpoonup> interval" where
  "INTERVAL_MAP = map_of
     [(''1m'', in_1_minute), (''5m'', in_5_minute), (''15m'', in_15_minute),
      (''1h'', in_1_hour), (''1d'', in_daily)]"

definition SR_INTERVAL :: interval where
  "SR_INTERVAL = in_daily"

definition SR_BARS :: int where
  "SR_BARS = 3"

text \<open>
  One row of the data frame \<^verbatim>\<open>get_hist\<close> returns: the cells read with \<^verbatim>\<open>.get\<close>, the row
  label as \<^verbatim>\<open>str\<close> renders it, and the label as \<^verbatim>\<open>format_time_value\<close> renders it.
\<close>

record bar =
  b_open :: cell
  b_high :: cell
  b_low :: cell
  b_close :: cell
  b_volume :: cell
  b_name :: string
  b_time :: "string option"

text \<open>The outcome of \<^verbatim>\<open>tv.get_hist(...)\<close>: it raises, returns \<^verbatim>\<open>None\<close>, or returns a frame.\<close>

datatype hist = HistRaised | HistNone | HistFrame "bar list"

type_synonym upstream = "string \<Rightarrow> string \<Rightarrow> interval \<Rightarrow> int \<Rightarrow> hist"

text \<open>
  \<^verbatim>\<open>get_tv_client()\<close>; \<open>tv_init\<close> is what constructing \<^verbatim>\<open>TvDatafeed\<close> does if it is tried:
  \<open>None\<close> when it succeeds, \<open>Some msg\<close> when it raises an exception whose text is \<open>msg\<close>.
\<close>

definition get_tv_client :: "string option \<Rightarrow> world \<Rightarrow> bool \<times> world" where
  "get_tv_client tv_init st =
     (if st_tv_client st then (True, st)
      else if (case st_tv_client_error st of Some e \<Rightarrow> e \<noteq> [] | None \<Rightarrow> False) then (False, st)
      else (case tv_init of
              None \<Rightarrow> (True, st\<lparr>st_tv_client := True\<rparr>)
            | Some msg \<Rightarrow> (False, st\<lparr>st_tv_client_error := Some msg\<rparr>)))"

subsection \<open>Quote service\<close>

text \<open>\<^verbatim>\<open>bars.iloc[-1]\<close> and \<^verbatim>\<open>bars.iloc[-2]\<close> of a frame; the callers check the length first.\<close>

definition iloc_last :: "bar list \<Rightarrow> bar" where
  "iloc_last bars = bars ! (length bars - 1)"

definition iloc_prev :: "bar list \<Rightarrow> bar" where
  "iloc_prev bars = bars ! (length bars - 2)"

text \<open>
  \<^verbatim>\<open>fetch_quote(symbol, exchange)\<close>; \<open>now_get\<close> and \<open>now_set\<close> are the clock readings inside
  \<^verbatim>\<open>cache_get\<close> and \<^verbatim>\<open>cache_set\<close>.
\<close>

definition fetch_quote ::
  "config \<Rightarrow> string option \<Rightarrow> upstream \<Rightarrow> rat \<Rightarrow> rat \<Rightarrow> string \<Rightarrow> string \<Rightarrow> world \<Rightarrow>
     (payload option \<times> string option) \<times> world" where
  "fetch_quote cfg tv_init get_hist now_get now_set symbol exchange st =
     (let interval = (case INTERVAL_MAP (TV_INTERVAL cfg) of Some i \<Rightarrow> i | None \<Rightarrow> in_daily);
          cache_key = exchange @ '':'' @ symbol @ '':'' @ TV_INTERVAL cfg;
          (cached, cache') = cache_get (CACHE_TTL_SECONDS cfg) now_get cache_key (st_cache st);
          st = st\<lparr>st_cache := cache'\<rparr>
      in case cached of
           Some d \<Rightarrow> ((Some d, None), st)
         | None \<Rightarrow>
             (let (tv, st) = get_tv_client tv_init st
              in if \<not> tv then ((None, Some ''Gagal login ke TradingView. Periksa kredensial.''), st)
                 else case get_hist symbol exchange interval (TV_BARS cfg) of
                        HistRaised \<Rightarrow> ((None, Some ''Gagal mengambil data. Coba lagi nanti.''), st)
                      | HistNone \<Rightarrow>
                          ((None, Some ''Data tidak tersedia untuk simbol tersebut.''), st)
                      | HistFrame bars \<Rightarrow>
                          if bars = []
                          then ((None, Some ''Data tidak tersedia untuk simbol tersebut.''), st)
                          else
                            (let last_bar = iloc_last bars;
                                 prev = (if length bars > 1 then Some (iloc_prev bars) else None);
                                 last_close = safe_float (b_close last_bar);
                                 prev_close = (case prev of
                                                 Some b \<Rightarrow> safe_float (b_close b)
                                               | None \<Rightarrow> None);
                                 data = QuoteData
                                   \<lparr>q_open = safe_float (b_open last_bar),
                                    q_high = safe_float (b_high last_bar),
                                    q_low = safe_float (b_low last_bar),
                                    q_close = last_close,
                                    q_volume = safe_float (b_volume last_bar),
                                    q_timestamp = Some (b_name last_bar),
                                    q_prev_close = prev_close\<rparr>
                             in ((Some data, None),
                                 st\<lparr>st_cache := cache_set now_set cache_key data (st_cache st)\<rparr>))))"

subsection \<open>Pivot calculator\<close>

text \<open>\<^verbatim>\<open>(high + low + close) / 3\<close>; the divisor is the literal 3, so the division cannot raise.\<close>

definition pivot_point :: "pyfloat \<Rightarrow> pyfloat \<Rightarrow> pyfloat \<Rightarrow> pyfloat" where
  "pivot_point high low close_v = fquot (fadd (fadd high low) close_v) (Fin 3)"

text \<open>The dictionary \<^verbatim>\<open>fetch_sr_levels\<close> builds from the selected bar.\<close>

definition pivot_levels :: "pyfloat \<Rightarrow> pyfloat \<Rightarrow> pyfloat \<Rightarrow> string option \<Rightarrow> levels" where
  "pivot_levels high low close_v bar_time =
     (let pivot = pivot_point high low close_v;
          r1 = fsub (fmul (Fin 2) pivot) low;
          s1 = fsub (fmul (Fin 2) pivot) high;
          r2 = fadd pivot (fsub high low);
          s2 = fsub pivot (fsub high low);
          r3 = fadd high (fmul (Fin 2) (fsub pivot low));
          s3 = fsub low (fmul (Fin 2) (fsub high pivot))
      in \<lparr>sr_s1 = Some s1, sr_s2 = Some s2, sr_s3 = Some s3,
          sr_r1 = Some r1, sr_r2 = Some r2, sr_r3 = Some r3, sr_time = bar_time\<rparr>)"

text \<open>\<^verbatim>\<open>bars.iloc[idx]\<close> with \<^verbatim>\<open>idx = -2 if len(bars) > 1 else -1\<close>.\<close>

definition select_bar :: "bar list \<Rightarrow> bar" where
  "select_bar bars = (if length bars > 1 then iloc_prev bars else iloc_last bars)"

definition fetch_sr_levels ::
  "config \<Rightarrow> string option \<Rightarrow> upstream \<Rightarrow> rat \<Rightarrow> rat \<Rightarrow> string \<Rightarrow> string \<Rightarrow> world \<Rightarrow>
     (payload option \<times> string option) \<times> world" where
  "fetch_sr_levels cfg tv_init get_hist now_get now_set symbol exchange st =
     (let cache_key = exchange @ '':'' @ symbol @ '':sr:1d:3'';
          (cached, cache') = cache_get (CACHE_TTL_SECONDS cfg) now_get cache_key (st_cache st);
          st = st\<lparr>st_cache := cache'\<rparr>
      in case cached of
           Some d \<Rightarrow> ((Some d, None), st)
         | None \<Rightarrow>
             (let (tv, st) = get_tv_client tv_init st
              in if \<not> tv then ((None, Some ''Gagal login ke TradingView.''), st)
                 else case get_hist symbol exchange SR_INTERVAL SR_BARS of
                        HistRaised \<Rightarrow> ((None, Some ''Gagal mengambil data SR.''), st)
                      | HistNone \<Rightarrow> ((None, Some ''Data SR tidak tersedia.''), st)
                      | HistFrame bars \<Rightarrow>
                          if bars = [] then ((None, Some ''Data SR tidak tersedia.''), st)
                          else
                            (let b = select_bar bars;
                                 high = safe_float (b_high b);
                                 low = safe_float (b_low b);
                                 close_v = safe_float (b_close b);
                                 bar_time = b_time b
                             in case (high, low, close_v) of
                                  (Some h, Some l, Some c) \<Rightarrow>
                                    if feq h l then ((None, Some ''Data SR tidak valid.''), st)
                                    else
                                      (let data = SRData (pivot_levels h l c bar_time)
                                       in ((Some data, None),
                                           st\<lparr>st_cache :=
                                                cache_set now_set cache_key data (st_cache st)\<rparr>))
                                | _ \<Rightarrow> ((None, Some ''Data SR tidak valid.''), st))))"

subsection \<open>Webhook dispatcher\<close>

text \<open>
  The object \<^verbatim>\<open>extract_message\<close> reads (the request body, or what it holds under
  \<^verbatim>\<open>"payload"\<close>), with the fields it looks at; the text and identifier fields are strings
  or absent.
\<close>

record inbound =
  m_body :: "string option"
  m_text :: "string option"
  m_message :: "string option"
  m_content :: "string option"
  m_chatId :: "string option"
  m_chat_id :: "string option"
  m_from :: "string option"
  m_fromMe :: bool
  m_from_me :: bool

text \<open>Truthiness of an optional string, and Python's \<^verbatim>\<open>a or b\<close> on such values.\<close>

definition truthy :: "string option \<Rightarrow> bool" where
  "truthy v \<longleftrightarrow> (case v of Some s \<Rightarrow> s \<noteq> [] | None \<Rightarrow> False)"

definition py_or :: "string option \<Rightarrow> string option \<Rightarrow> string option" where
  "py_or a b = (if truthy a then a else b)"

definition extract_message :: "inbound \<Rightarrow> string option \<times> string option \<times> bool" where
  "extract_message data =
     (let text = py_or (m_body data) (py_or (m_text data) (py_or (m_message data) (m_content data)));
          chat_id = py_or (m_chatId data) (py_or (m_chat_id data) (m_from data));
          from_me = (m_fromMe data \<or> m_from_me data)
      in (text, chat_id, from_me))"

text \<open>
  \<^verbatim>\<open>send_text\<close>: the footer is appended unless the text is empty or already ends with it; the
  request to the gateway is recorded in the outbox (its failures are logged and swallowed).
\<close>

definition send_text :: "string \<Rightarrow> string \<Rightarrow> world \<Rightarrow> world" where
  "send_text chat_id text st =
     (let text = (if text \<noteq> [] \<and> \<not> endswith (rstrip text) footer
                  then rstrip text @ newline @ newline @ footer else text)
      in st\<lparr>st_outbox := st_outbox st @ [(chat_id, text)]\<rparr>)"

text \<open>\<^verbatim>\<open>str(n)\<close> for an integer, as an f-string renders it.\<close>

definition str_int :: "int \<Rightarrow> string" where
  "str_int n = (if n < 0 then ''-'' else []) @ decimal (nat \<bar>n\<bar>)"

definition wait_message :: "int \<Rightarrow> string" where
  "wait_message remaining = ''Mohon tunggu '' @ str_int remaining @ '' detik sebelum request lagi.''"

text \<open>The readings of \<^verbatim>\<open>time.time()\<close> that one request can take, in the order of the calls.\<close>

record clock =
  t_rate_limit :: rat
  t_quote_get :: rat
  t_quote_set :: rat
  t_sr_get :: rat
  t_sr_set :: rat

text \<open>
  \<^verbatim>\<open>webhook()\<close>: the status of the JSON answer (or the exception that escapes) and the new
  state.
\<close>

definition webhook ::
  "config \<Rightarrow> string option \<Rightarrow> upstream \<Rightarrow> clock \<Rightarrow> inbound \<Rightarrow> world \<Rightarrow>
     (py_error + string) \<times> world" where
  "webhook cfg tv_init get_hist clk data st =
     (case extract_message data of
        (Some text, Some chat_id, from_me) \<Rightarrow>
          if text = [] \<or> chat_id = [] \<or> from_me then (Inr ''ignored'', st)
          else
            (let (command, symbol) = parse_command text
             in if \<not> truthy command then (Inr ''ignored'', st)
                else
                  (let ((ok, remaining), table) =
                         rate_limit_ok (RATE_LIMIT_SECONDS cfg) (t_rate_limit clk) chat_id
                           (st_rate_limit st);
                       st = st\<lparr>st_rate_limit := table\<rparr>
                   in if \<not> ok
                      then (Inr ''rate_limited'', send_text chat_id (wait_message remaining) st)
                      else if command = Some ''help''
                      then (Inr ''ok'', send_text chat_id help_text st)
                      else if command = Some ''ihsg''
                      then
                        (let ((data, error), st) =
                               fetch_quote cfg tv_init get_hist (t_quote_get clk) (t_quote_set clk)
                                 (IHSG_SYMBOL cfg) ''IDX'' st
                         in case data of
                              Some d \<Rightarrow>
                                if truthy error
                                then (Inr ''error'',
                                      send_text chat_id
                                        (case error of Some e \<Rightarrow> e | None \<Rightarrow> []) st)
                                else
                                  (case format_quote_text (IHSG_SYMBOL cfg) ''IDX'' d
                                          (Some ''IHSG (IDX)'') None of
                                     Inl e \<Rightarrow> (Inl e, st)
                                   | Inr message \<Rightarrow> (Inr ''ok'', send_text chat_id message st))
                            | None \<Rightarrow>
                                (Inr ''error'',
                                 send_text chat_id
                                   (if truthy error
                                    then (case error of Some e \<Rightarrow> e | None \<Rightarrow> [])
                                    else ''Data IHSG tidak tersedia.'') st))
                      else if command = Some ''quote'' \<and> truthy symbol
                      then
                        (let sym = (case symbol of Some s \<Rightarrow> s | None \<Rightarrow> []);
                             ((data, error), st) =
                               fetch_quote cfg tv_init get_hist (t_quote_get clk) (t_quote_set clk)
                                 sym ''IDX'' st
                         in case data of
                              Some d \<Rightarrow>
                                if truthy error
                                then (Inr ''error'',
                                      send_text chat_id
                                        (case error of Some e \<Rightarrow> e | None \<Rightarrow> []) st)
                                else
                                  (let ((sr_data, sr_error), st) =
                                         fetch_sr_levels cfg tv_init get_hist (t_sr_get clk)
                                           (t_sr_set clk) sym ''IDX'' st;
                                       sr_data = (if truthy sr_error then None else sr_data)
                                   in case format_quote_text sym ''IDX'' d None sr_data of
                                        Inl e \<Rightarrow> (Inl e, st)
                                      | Inr message \<Rightarrow>
                                          (Inr ''ok'', send_text chat_id message st))
                            | None \<Rightarrow>
                                (Inr ''error'',
                                 send_text chat_id
                                   (if truthy error
                                    then (case error of Some e \<Rightarrow> e | None \<Rightarrow> [])
                                    else ''Data tidak tersedia.'') st))
                      else (Inr ''ignored'', st)))
      | _ \<Rightarrow> (Inr ''ignored'', st))"

subsection \<open>Start state and sample runs\<close>

text \<open>
  The defaults of the configuration, the state of the module right after import, an upstream
  that holds three daily bars and answers a query with the last \<open>n_bars\<close> of them (the
  latest is the bar of the specification's scenario: open 90, high 101, low 89, close 100,
  volume 1000), and an upstream whose queries raise.
\<close>

definition default_config :: config where
  "default_config = \<lparr>TV_INTERVAL = ''1d'', TV_BARS = 2, IHSG_SYMBOL = ''COMPOSITE'',
                      CACHE_TTL_SECONDS = 15, RATE_LIMIT_SECONDS = 5\<rparr>"

definition initial_world :: world where
  "initial_world = \<lparr>st_cache = Map.empty, st_rate_limit = Map.empty, st_tv_client = False,
                     st_tv_client_error = None, st_outbox = []\<rparr>"

definition scenario_bars :: "bar list" where
  "scenario_bars =
     [\<lparr>b_open = Numeric (Fin 96), b_high = Numeric (Fin 99), b_low = Numeric (Fin 95),
       b_close = Numeric (Fin 98), b_volume = Numeric (Fin 3000),
       b_name = ''2024-01-01 00:00:00'', b_time = Some ''2024-01-01 00:00:00''\<rparr>,
      \<lparr>b_open = Numeric (Fin 98), b_high = Numeric (Fin 102), b_low = Numeric (Fin 97),
       b_close = Numeric (Fin 100), b_volume = Numeric (Fin 2000),
       b_name = ''2024-01-02 00:00:00'', b_time = Some ''2024-01-02 00:00:00''\<rparr>,
      \<lparr>b_open = Numeric (Fin 90), b_high = Numeric (Fin 101), b_low = Numeric (Fin 89),
       b_close = Numeric (Fin 100), b_volume = Numeric (Fin 1000),
       b_name = ''2024-01-03 00:00:00'', b_time = Some ''2024-01-03 00:00:00''\<rparr>]"

definition scenario_upstream :: upstream where
  "scenario_upstream symbol exchange interval n_bars =
     HistFrame (drop (length scenario_bars - nat n_bars) scenario_bars)"

definition failing_upstream :: upstream where
  "failing_upstream symbol exchange interval n_bars = HistRaised"



definition help_event :: inbound where
  "help_event = \<lparr>m_body = Some ''!help'', m_text = None, m_message = None, m_content = None,
                  m_chatId = Some ''X'', m_chat_id = None, m_from = None,
                  m_fromMe = False, m_from_me = False\<rparr>"

definition clock_at :: "rat \<Rightarrow> clock" where
  "clock_at t = \<lparr>t_rate_limit = t, t_quote_get = t, t_quote_set = t, t_sr_get = t, t_sr_set = t\<rparr>"

section \<open>Properties\<close>

subsection \<open>Evaluating floors of rational literals\<close>

lemma rat_floor_literal [simp]:
  "\<lfloor>numeral a / numeral b :: rat\<rfloor> = numeral a div numeral b"
  using floor_divide_of_int_eq [of "numeral a" "numeral b", where ?'a = rat] by simp

lemma rat_floor_neg_literal [simp]:
  "\<lfloor>- (numeral a / numeral b) :: rat\<rfloor> = - numeral a div numeral b"
  using floor_divide_of_int_eq [of "- numeral a" "numeral b", where ?'a = rat] by simp

lemma rat_ceiling_literal [simp]:
  "\<lceil>numeral a / numeral b :: rat\<rceil> = - (- numeral a div numeral b)"
  by (simp add: ceiling_def)

lemma rat_ceiling_neg_literal [simp]:
  "\<lceil>- (numeral a / numeral b) :: rat\<rceil> = - (numeral a div numeral b)"
  by (simp add: ceiling_def)

subsection \<open>Rate limiter\<close>

lemma rate_limit_ok_denied:
  assumes "rate_limit chat_id = Some last_at" "last_at \<noteq> 0" "now - last_at < of_int w"
  shows "rate_limit_ok w now chat_id rate_limit =
           ((False, max 1 (py_int (of_int w - (now - last_at)))), rate_limit)"
  using assms by (simp add: rate_limit_ok_def)

lemma rate_limit_ok_allowed_expired:
  assumes "rate_limit chat_id = Some last_at" "of_int w \<le> now - last_at"
  shows "rate_limit_ok w now chat_id rate_limit = ((True, 0), rate_limit(chat_id \<mapsto> now))"
  using assms by (simp add: rate_limit_ok_def)

lemma rate_limit_ok_cases:
  "rate_limit_ok w now c tbl = ((True, 0), tbl(c \<mapsto> now)) \<or>
   (\<exists>n\<ge>1. rate_limit_ok w now c tbl = ((False, n), tbl))"
  by (auto simp: rate_limit_ok_def split: option.splits)

lemma rate_limit_ok_frame_denied:
  "\<not> fst (fst (rate_limit_ok w now c tbl)) \<Longrightarrow> snd (rate_limit_ok w now c tbl) = tbl"
  by (auto simp: rate_limit_ok_def split: option.splits if_splits)

lemma rate_limit_ok_frame_allowed:
  "fst (fst (rate_limit_ok w now c tbl)) \<Longrightarrow> snd (rate_limit_ok w now c tbl) = tbl(c \<mapsto> now)"
  by (auto simp: rate_limit_ok_def split: option.splits if_splits)

lemma rate_limit_run_all_denied:
  assumes "tbl c = Some t0" "t0 \<noteq> 0" "\<forall>t\<in>set ts. t < t0 + of_int w"
  shows "snd (rate_limit_run w c ts tbl) = tbl \<and>
         (\<forall>r\<in>set (fst (rate_limit_run w c ts tbl)). \<not> fst r \<and> 1 \<le> snd r)"
  using assms
proof (induction ts)
  case Nil
  then show ?case by simp
next
  case (Cons t ts)
  from Cons.prems have lt: "t - t0 < of_int w" by (simp add: algebra_simps)
  have step: "rate_limit_ok w t c tbl = ((False, max 1 (py_int (of_int w - (t - t0)))), tbl)"
    using Cons.prems(1,2) lt by (simp add: rate_limit_ok_def)
  from Cons.IH Cons.prems show ?case
    by (cases "rate_limit_run w c ts tbl") (simp add: step)
qed

lemma rate_limit_run_frame:
  "\<forall>r\<in>set (fst (rate_limit_run w c ts tbl)). \<not> fst r \<Longrightarrow> snd (rate_limit_run w c ts tbl) = tbl"
proof (induction ts arbitrary: tbl)
  case Nil
  then show ?case by simp
next
  case (Cons t ts)
  obtain r tbl' where r: "rate_limit_ok w t c tbl = (r, tbl')" by (cases "rate_limit_ok w t c tbl")
  obtain rs tbl'' where rs: "rate_limit_run w c ts tbl' = (rs, tbl'')"
    by (cases "rate_limit_run w c ts tbl'")
  from Cons.prems r rs have d: "\<not> fst r" and ds: "\<forall>r\<in>set rs. \<not> fst r" by simp_all
  from d r have "tbl' = tbl" using rate_limit_ok_frame_denied [of w t c tbl] by simp
  moreover from ds rs have "tbl'' = tbl'" using Cons.IH [of tbl'] by simp
  ultimately show ?case using r rs by simp
qed

lemma rate_limit_run_denied_nonzero:
  assumes "tbl c = Some t0" "ts \<noteq> []" "\<forall>r\<in>set (fst (rate_limit_run w c ts tbl)). \<not> fst r"
  shows "t0 \<noteq> 0"
proof (cases ts)
  case Nil
  with assms(2) show ?thesis by simp
next
  case (Cons t ts')
  obtain rs tbl'' where rs: "rate_limit_run w c ts' (snd (rate_limit_ok w t c tbl)) = (rs, tbl'')"
    by (cases "rate_limit_run w c ts' (snd (rate_limit_ok w t c tbl))")
  from assms(3) Cons rs have "\<not> fst (fst (rate_limit_ok w t c tbl))"
    by (cases "rate_limit_ok w t c tbl") simp
  with assms(1) show ?thesis
    by (auto simp: rate_limit_ok_def split: if_splits)
qed

lemma rate_limit_ok_allowed_iff:
  assumes "tbl c = Some t0" "t0 \<noteq> 0"
  shows "fst (fst (rate_limit_ok w now c tbl)) \<longleftrightarrow> t0 + of_int w \<le> now"
  using assms by (auto simp: rate_limit_ok_def)

text \<open>
  C2 (as stated, refuted). With a window of 5 seconds, a timestamp recorded at 100 and a call
  at 100.5, the claim's ceiling of the 4.5 remaining seconds is 5, but the limiter answers 4:
  \<^verbatim>\<open>int(...)\<close> truncates.
\<close>

theorem rate_limit_remaining_ceiling_counterexample:
  "[''X'' \<mapsto> 100] ''X'' = Some (100::rat) \<and> (201/2 - 100 :: rat) < of_int 5 \<and>
   fst (rate_limit_ok 5 (201/2) ''X'' [''X'' \<mapsto> 100]) = (False, 4) \<and>
   max 1 \<lceil>of_int 5 - (201/2 - 100 :: rat)\<rceil> = (5::int)"
  by (simp add: rate_limit_ok_def py_int_def)

text \<open>
  C2 (amended). For a conversation with a recorded non-zero last-accepted timestamp
  \<open>last_at\<close> and a call time \<open>now\<close> with \<open>now - last_at < window\<close>, the limiter returns
  Denied, leaves the table as it is, and reports the remaining time truncated to whole seconds,
  \<open>max 1 \<lfloor>window - (now - last_at)\<rfloor>\<close>, which is at least 1.
\<close>

theorem rate_limit_denied_remaining:
  assumes "rate_limit chat_id = Some last_at" and "last_at \<noteq> 0"
    and "now - last_at < of_int w"
  shows "rate_limit_ok w now chat_id rate_limit =
           ((False, max 1 \<lfloor>of_int w - (now - last_at)\<rfloor>), rate_limit) \<and>
         1 \<le> snd (fst (rate_limit_ok w now chat_id rate_limit))"
proof -
  from assms(3) have "0 \<le> of_int w - (now - last_at)" by simp
  then have "py_int (of_int w - (now - last_at)) = \<lfloor>of_int w - (now - last_at)\<rfloor>"
    by (simp add: py_int_def)
  with rate_limit_ok_denied [of rate_limit chat_id last_at now w] assms show ?thesis by simp
qed

theorem rate_limit_denied_remaining_witness:
  "[''X'' \<mapsto> 100] ''X'' = Some (100::rat) \<and> (100::rat) \<noteq> 0 \<and> (201/2 - 100 :: rat) < of_int 5 \<and>
   rate_limit_ok 5 (201/2) ''X'' [''X'' \<mapsto> 100] = ((False, 4), [''X'' \<mapsto> 100])"
  using rate_limit_denied_remaining [of "[''X'' \<mapsto> 100]" "''X''" 100 "201/2" 5]
  by simp

text \<open>
  C3. Round trip: once a check at a (non-zero) clock reading \<open>t0\<close> is allowed, \<open>t0\<close> is
  recorded at once; any run of later checks at readings strictly before \<open>t0 + window\<close> is
  denied throughout, a further check before \<open>t0 + window\<close> is still denied, and a check at
  or after \<open>t0 + window\<close> is allowed again. The clock is \<^verbatim>\<open>time.time()\<close>, seconds since the
  epoch, so a reading is never \<^verbatim>\<open>0.0\<close>, the one value the truthiness test would treat as
  "no record".
\<close>

theorem rate_limit_round_trip:
  assumes "fst (fst (rate_limit_ok w t0 c tbl))" and "t0 \<noteq> 0"
    and "\<forall>t\<in>set ts. t < t0 + of_int w"
  shows "(let tbl1 = snd (rate_limit_ok w t0 c tbl);
              tbl2 = snd (rate_limit_run w c ts tbl1)
          in tbl1 c = Some t0 \<and>
             (\<forall>r\<in>set (fst (rate_limit_run w c ts tbl1)). \<not> fst r \<and> 1 \<le> snd r) \<and>
             (now < t0 + of_int w \<longrightarrow> \<not> fst (fst (rate_limit_ok w now c tbl2))) \<and>
             (t0 + of_int w \<le> now \<longrightarrow> fst (rate_limit_ok w now c tbl2) = (True, 0)))"
proof -
  define tbl1 where "tbl1 = snd (rate_limit_ok w t0 c tbl)"
  define tbl2 where "tbl2 = snd (rate_limit_run w c ts tbl1)"
  from assms(1) have "tbl1 = tbl(c \<mapsto> t0)"
    unfolding tbl1_def by (rule rate_limit_ok_frame_allowed)
  then have rec: "tbl1 c = Some t0" by simp
  from rate_limit_run_all_denied [of tbl1 c t0 ts w] rec assms(2,3)
  have same: "tbl2 = tbl1"
    and den: "\<forall>r\<in>set (fst (rate_limit_run w c ts tbl1)). \<not> fst r \<and> 1 \<le> snd r"
    unfolding tbl2_def by simp_all
  have iff: "fst (fst (rate_limit_ok w now c tbl2)) \<longleftrightarrow> t0 + of_int w \<le> now"
    unfolding same using rate_limit_ok_allowed_iff [of tbl1 c t0 w now] rec assms(2) by simp
  have late: "t0 + of_int w \<le> now \<Longrightarrow> fst (rate_limit_ok w now c tbl2) = (True, 0)"
    using iff rate_limit_ok_cases [of w now c tbl2] by auto
  from rec den iff late show ?thesis
    unfolding tbl1_def [symmetric] tbl2_def [symmetric] Let_def by auto
qed

theorem rate_limit_round_trip_witness:
  "fst (fst (rate_limit_ok 5 100 ''X'' Map.empty)) \<and> (100::rat) \<noteq> 0 \<and>
   (101::rat) < 100 + of_int 5 \<and> (209/2 :: rat) < 100 + of_int 5 \<and>
   snd (rate_limit_ok 5 100 ''X'' Map.empty) ''X'' = Some 100 \<and>
   fst (rate_limit_run 5 ''X'' [101, 209/2] (snd (rate_limit_ok 5 100 ''X'' Map.empty)))
     = [(False, 4), (False, 1)] \<and>
   fst (rate_limit_ok 5 105
     (''X'') (snd (rate_limit_run 5 ''X'' [101, 209/2] (snd (rate_limit_ok 5 100 ''X'' Map.empty)))))
     = (True, 0)"
  using rate_limit_round_trip [of 5 100 "''X''" Map.empty "[101, 209/2]" 105]
  by (simp add: rate_limit_ok_def py_int_def)

text \<open>
  C10. Frame: a denied check returns the table it was given; an allowed check changes exactly
  the entry of its conversation, to \<open>now\<close>. Hence a run of checks that are all denied leaves
  the table as it was, and after one or more such denials the conversation is allowed exactly
  from \<open>t0 + window\<close> on, where \<open>t0\<close> is its last accepted timestamp.
\<close>

theorem rate_limit_denied_frame:
  "(\<not> fst (fst (rate_limit_ok w now c tbl)) \<longrightarrow> snd (rate_limit_ok w now c tbl) = tbl) \<and>
   (fst (fst (rate_limit_ok w now c tbl)) \<longrightarrow> snd (rate_limit_ok w now c tbl) = tbl(c \<mapsto> now)) \<and>
   ((\<forall>r\<in>set (fst (rate_limit_run w c ts tbl)). \<not> fst r) \<longrightarrow>
      snd (rate_limit_run w c ts tbl) = tbl) \<and>
   (tbl c = Some t0 \<and> ts \<noteq> [] \<and> (\<forall>r\<in>set (fst (rate_limit_run w c ts tbl)). \<not> fst r) \<longrightarrow>
      (fst (fst (rate_limit_ok w t c (snd (rate_limit_run w c ts tbl)))) \<longleftrightarrow> t0 + of_int w \<le> t))"
proof -
  have "fst (fst (rate_limit_ok w t c (snd (rate_limit_run w c ts tbl)))) \<longleftrightarrow> t0 + of_int w \<le> t"
    if h: "tbl c = Some t0" "ts \<noteq> []" "\<forall>r\<in>set (fst (rate_limit_run w c ts tbl)). \<not> fst r"
  proof -
    have nz: "t0 \<noteq> 0"
      using rate_limit_run_denied_nonzero [of tbl c t0 ts w] h by simp
    have "snd (rate_limit_run w c ts tbl) = tbl" by (rule rate_limit_run_frame [OF h(3)])
    then show ?thesis using rate_limit_ok_allowed_iff [of tbl c t0 w t] h(1) nz by simp
  qed
  then show ?thesis
    using rate_limit_ok_frame_denied [of w now c tbl] rate_limit_ok_frame_allowed [of w now c tbl]
      rate_limit_run_frame [of w c ts tbl]
    by blast
qed

theorem rate_limit_denied_frame_witness:
  "\<not> fst (fst (rate_limit_ok 5 101 ''X'' [''X'' \<mapsto> 100])) \<and>
   snd (rate_limit_ok 5 101 ''X'' [''X'' \<mapsto> 100]) = [''X'' \<mapsto> 100] \<and>
   fst (fst (rate_limit_ok 5 105 ''X'' [''X'' \<mapsto> 100])) \<and>
   snd (rate_limit_ok 5 105 ''X'' [''X'' \<mapsto> 100]) = [''X'' \<mapsto> 105] \<and>
   [''X'' \<mapsto> 100] ''X'' = Some (100::rat) \<and> [101, 102, 103 :: rat] \<noteq> [] \<and>
   fst (rate_limit_run 5 ''X'' [101, 102, 103] [''X'' \<mapsto> 100])
     = [(False, 4), (False, 3), (False, 2)] \<and>
   snd (rate_limit_run 5 ''X'' [101, 102, 103] [''X'' \<mapsto> 100]) = [''X'' \<mapsto> 100] \<and>
   \<not> fst (fst (rate_limit_ok 5 (209/2) ''X'' (snd (rate_limit_run 5 ''X'' [101, 102, 103] [''X'' \<mapsto> 100])))) \<and>
   fst (fst (rate_limit_ok 5 105 ''X'' (snd (rate_limit_run 5 ''X'' [101, 102, 103] [''X'' \<mapsto> 100]))))"
  using rate_limit_denied_frame [of 5 101 "''X''" "[''X'' \<mapsto> 100]" "[101, 102, 103]" 100 "209/2"]
    rate_limit_denied_frame [of 5 105 "''X''" "[''X'' \<mapsto> 100]" "[101, 102, 103]" 100 105]
  by (simp add: rate_limit_ok_def py_int_def)

subsection \<open>Cache\<close>

text \<open>
  C7. A get for an entry created at \<open>created_at\<close> returns a miss and removes the entry when
  \<open>now - created_at > ttl\<close>; two gets for the same key, with nothing stored in between and
  both within the TTL, leave the cache as it is and return the same payload.
\<close>

theorem cache_get_ttl:
  "(cache key = Some (created_at, d) \<and> now - created_at > of_int ttl \<longrightarrow>
      cache_get ttl now key cache = (None, cache(key := None)) \<and>
      key \<notin> dom (snd (cache_get ttl now key cache))) \<and>
   (cache key = Some (created_at, d) \<and> now1 - created_at \<le> of_int ttl \<and>
    now2 - created_at \<le> of_int ttl \<longrightarrow>
      cache_get ttl now1 key cache = (Some d, cache) \<and>
      fst (cache_get ttl now2 key (snd (cache_get ttl now1 key cache))) =
        fst (cache_get ttl now1 key cache))"
  by (auto simp: cache_get_def)

theorem cache_get_ttl_witness:
  "[''IDX:BBCA:1d'' \<mapsto> (100::rat, 7::nat)] ''IDX:BBCA:1d'' = Some (100, 7) \<and>
   (116 - 100 :: rat) > of_int 15 \<and>
   cache_get 15 116 ''IDX:BBCA:1d'' [''IDX:BBCA:1d'' \<mapsto> (100, 7::nat)] = (None, Map.empty) \<and>
   (101 - 100 :: rat) \<le> of_int 15 \<and> (115 - 100 :: rat) \<le> of_int 15 \<and>
   cache_get 15 101 ''IDX:BBCA:1d'' [''IDX:BBCA:1d'' \<mapsto> (100, 7::nat)]
     = (Some 7, [''IDX:BBCA:1d'' \<mapsto> (100, 7)]) \<and>
   fst (cache_get 15 115 ''IDX:BBCA:1d''
          (snd (cache_get 15 101 ''IDX:BBCA:1d'' [''IDX:BBCA:1d'' \<mapsto> (100, 7::nat)]))) = Some 7"
  using cache_get_ttl [of "[''IDX:BBCA:1d'' \<mapsto> (100, 7::nat)]" "''IDX:BBCA:1d''" 100 7 15 116 101 115]
  by (simp add: cache_get_def)

subsection \<open>Command parser\<close>

lemmas ascii_defs = ascii_lowercase_def ascii_uppercase_def ascii_digits_def

lemmas parse_defs = parse_command_def spec_parse_command_def strip_def rstrip_def lower_def
  upper_def lower_char_def upper_char_def startswith_def endswith_def match_ihsg_def
  match_symbol_def spec_match_symbol_def is_space_def is_word_char_def symbol_class_def
  spec_symbol_class_def ascii_defs

text \<open>The examples of the specification, run on the parser.\<close>

lemma parse_command_examples:
  "parse_command ''$bbca'' = (Some ''quote'', Some ''BBCA'') \<and>
   parse_command ''$BBCA.JK'' = (Some ''quote'', Some ''BBCA'') \<and>
   parse_command ''!IHSG now'' = (Some ''ihsg'', None) \<and>
   parse_command ''!help'' = (Some ''help'', None) \<and>
   parse_command ''hello'' = (None, None)"
  by (simp add: parse_defs)

text \<open>
  C6 (the code departs from the claim). The claim's symbol pattern is \<^verbatim>\<open>^\$([a-z0-9.]+)\<close>.
  The source's raw string \<^verbatim>\<open>r"^\$([a-z0-9\\.]+)"\<close> escapes a backslash instead of the dot, so
  the class also holds the backslash: on the text \<^verbatim>\<open>$ab\cd\<close> the parser answers the symbol
  \<^verbatim>\<open>AB\CD\<close>, where the parser of the claim stops at the backslash and answers \<^verbatim>\<open>AB\<close>.
\<close>

theorem parse_command_backslash:
  "parse_command (''$ab'' @ [CHR 0x5C] @ ''cd'') =
     (Some ''quote'', Some (''AB'' @ [CHR 0x5C] @ ''CD'')) \<and>
   spec_parse_command (''$ab'' @ [CHR 0x5C] @ ''cd'') = (Some ''quote'', Some ''AB'')"
  by (simp add: parse_defs)

subsection \<open>Number formatting\<close>

lemma format_number_finite:
  "format_number (Some (Fin x)) =
     Inr (if x \<in> \<int> then format_int_grouped \<lfloor>x\<rfloor> else format_fixed2 True x)"
proof (cases "x \<in> \<int>")
  case True
  then obtain k where k: "x = of_int k" by (auto elim: Ints_cases)
  have "py_int x = k" by (simp add: py_int_def k)
  with k True show ?thesis by (simp add: format_number_def bindE_def feq_def)
next
  case False
  then have "x \<noteq> of_int (py_int x)" by (metis Ints_of_int)
  with False show ?thesis by (simp add: format_number_def bindE_def feq_def)
qed

lemma format_number_absent: "format_number None = Inr ''-''"
  by (simp add: format_number_def)

text \<open>The only inputs on which \<^const>\<open>format_number\<close> raises are the non-finite floats.\<close>

lemma format_number_raises_iff:
  "(\<exists>e. format_number v = Inl e) \<longleftrightarrow> v \<in> {Some PInf, Some NInf, Some NaN}"
proof (cases v)
  case None
  then show ?thesis by (simp add: format_number_def)
next
  case (Some a)
  then show ?thesis
    by (cases a) (auto simp: format_number_def bindE_def feq_def split: pyfloat.splits)
qed

text \<open>
  C9 (the code departs from the claim). \<^const>\<open>safe_float\<close> maps NaN to absent but lets the
  infinities through, and on an infinity \<^verbatim>\<open>int(value)\<close> inside \<^const>\<open>format_number\<close> raises
  \<^verbatim>\<open>OverflowError\<close>.
\<close>

theorem format_number_infinity:
  "safe_float (Numeric PInf) = Some PInf \<and>
   format_number (safe_float (Numeric PInf)) = Inl OverflowError \<and>
   format_number (safe_float (Numeric NInf)) = Inl OverflowError"
  by (simp add: format_number_def bindE_def)

subsection \<open>Pivot levels from upstream bars\<close>

lemmas scenario_defs = default_config_def initial_world_def scenario_bars_def
  scenario_upstream_def failing_upstream_def

lemma get_tv_client_usable:
  assumes "st_tv_client st \<or> (\<not> truthy (st_tv_client_error st) \<and> tv_init = None)"
  shows "get_tv_client tv_init st = (True, st\<lparr>st_tv_client := True\<rparr>)"
  using assms by (cases st) (auto simp: get_tv_client_def truthy_def split: option.splits)

text \<open>
  What \<^const>\<open>fetch_sr_levels\<close> returns, and the state it leaves, on a cache miss with a usable
  client, for each outcome of the upstream query.
\<close>

lemma fetch_sr_levels_miss:
  assumes miss: "cache_get (CACHE_TTL_SECONDS cfg) now_get (exchange @ '':'' @ symbol @ '':sr:1d:3'')
                   (st_cache st) = (None, cache')"
    and client: "st_tv_client st \<or> (\<not> truthy (st_tv_client_error st) \<and> tv_init = None)"
  shows "fetch_sr_levels cfg tv_init get_hist now_get now_set symbol exchange st =
     (case get_hist symbol exchange SR_INTERVAL SR_BARS of
        HistRaised \<Rightarrow>
          ((None, Some ''Gagal mengambil data SR.''), st\<lparr>st_cache := cache', st_tv_client := True\<rparr>)
      | HistNone \<Rightarrow>
          ((None, Some ''Data SR tidak tersedia.''), st\<lparr>st_cache := cache', st_tv_client := True\<rparr>)
      | HistFrame bars \<Rightarrow>
          if bars = []
          then ((None, Some ''Data SR tidak tersedia.''),
                st\<lparr>st_cache := cache', st_tv_client := True\<rparr>)
          else (case (safe_float (b_high (select_bar bars)), safe_float (b_low (select_bar bars)),
                      safe_float (b_close (select_bar bars))) of
                  (Some h, Some l, Some c) \<Rightarrow>
                    if feq h l
                    then ((None, Some ''Data SR tidak valid.''),
                          st\<lparr>st_cache := cache', st_tv_client := True\<rparr>)
                    else ((Some (SRData (pivot_levels h l c (b_time (select_bar bars)))), None),
                          st\<lparr>st_cache :=
                               cache'(exchange @ '':'' @ symbol @ '':sr:1d:3'' \<mapsto>
                                 (now_set, SRData (pivot_levels h l c (b_time (select_bar bars))))),
                             st_tv_client := True\<rparr>)
                | _ \<Rightarrow> ((None, Some ''Data SR tidak valid.''),
                        st\<lparr>st_cache := cache', st_tv_client := True\<rparr>)))"
proof -
  have cl: "st_tv_client (st\<lparr>st_cache := cache'\<rparr>) \<or>
     (\<not> truthy (st_tv_client_error (st\<lparr>st_cache := cache'\<rparr>)) \<and> tv_init = None)"
    using client by simp
  have g: "get_tv_client tv_init (st\<lparr>st_cache := cache'\<rparr>) =
             (True, st\<lparr>st_cache := cache', st_tv_client := True\<rparr>)"
    using get_tv_client_usable [OF cl] by simp
  show ?thesis
    using miss g unfolding fetch_sr_levels_def
    by (simp add: Let_def cache_set_def split: hist.splits option.splits)
qed

lemma select_bar_index:
  "bars \<noteq> [] \<Longrightarrow>
   select_bar bars = (if 2 \<le> length bars then bars ! (length bars - 2) else last bars)"
proof (cases "2 \<le> length bars")
  case True
  then show ?thesis by (simp add: select_bar_def iloc_prev_def)
next
  case False
  assume "bars \<noteq> []"
  with False show ?thesis by (simp add: select_bar_def iloc_last_def last_conv_nth)
qed

text \<open>
  C8 (as stated, refuted). With no cached levels and a usable client, an upstream query that
  raises makes \<^const>\<open>fetch_sr_levels\<close> return an error ("Gagal mengambil data SR.") although
  there is no empty response and no invalid bar.
\<close>

theorem fetch_sr_levels_raising_counterexample:
  "cache_get (CACHE_TTL_SECONDS default_config) 1000 (''IDX'' @ '':'' @ ''BBCA'' @ '':sr:1d:3'')
     (st_cache initial_world) = (None, Map.empty) \<and>
   get_tv_client None initial_world = (True, initial_world\<lparr>st_tv_client := True\<rparr>) \<and>
   failing_upstream ''BBCA'' ''IDX'' SR_INTERVAL SR_BARS = HistRaised \<and>
   fst (fetch_sr_levels default_config None failing_upstream 1000 1001 ''BBCA'' ''IDX'' initial_world)
     = (None, Some ''Gagal mengambil data SR.'')"
  by (simp add: scenario_defs cache_get_def get_tv_client_def fetch_sr_levels_def Let_def)

text \<open>
  C8 (amended). On a cache miss with a usable client, \<^const>\<open>fetch_sr_levels\<close> returns an error
  and no levels exactly in these cases: the upstream query raises (the "fetch failed"
  message), the response is \<^verbatim>\<open>None\<close> or empty (the "not available" message), or high, low
  and close of the selected bar are not all present or high equals low (the "not valid"
  message). Otherwise it returns, and stores in the cache, the levels computed from the
  selected bar. The selected bar is the second-to-last one when there are at least two bars,
  and the last one otherwise.
\<close>

theorem fetch_sr_levels_outcome:
  assumes "cache_get (CACHE_TTL_SECONDS cfg) now_get (exchange @ '':'' @ symbol @ '':sr:1d:3'')
             (st_cache st) = (None, cache')"
    and "st_tv_client st \<or> (\<not> truthy (st_tv_client_error st) \<and> tv_init = None)"
  shows "fetch_sr_levels cfg tv_init get_hist now_get now_set symbol exchange st =
     (case get_hist symbol exchange SR_INTERVAL SR_BARS of
        HistRaised \<Rightarrow>
          ((None, Some ''Gagal mengambil data SR.''), st\<lparr>st_cache := cache', st_tv_client := True\<rparr>)
      | HistNone \<Rightarrow>
          ((None, Some ''Data SR tidak tersedia.''), st\<lparr>st_cache := cache', st_tv_client := True\<rparr>)
      | HistFrame bars \<Rightarrow>
          if bars = []
          then ((None, Some ''Data SR tidak tersedia.''),
                st\<lparr>st_cache := cache', st_tv_client := True\<rparr>)
          else
            (let b = (if 2 \<le> length bars then bars ! (length bars - 2) else last bars)
             in case (safe_float (b_high b), safe_float (b_low b), safe_float (b_close b)) of
                  (Some h, Some l, Some c) \<Rightarrow>
                    if feq h l
                    then ((None, Some ''Data SR tidak valid.''),
                          st\<lparr>st_cache := cache', st_tv_client := True\<rparr>)
                    else ((Some (SRData (pivot_levels h l c (b_time b))), None),
                          st\<lparr>st_cache :=
                               cache'(exchange @ '':'' @ symbol @ '':sr:1d:3'' \<mapsto>
                                 (now_set, SRData (pivot_levels h l c (b_time b)))),
                             st_tv_client := True\<rparr>)
                | _ \<Rightarrow> ((None, Some ''Data SR tidak valid.''),
                        st\<lparr>st_cache := cache', st_tv_client := True\<rparr>)))
      \<and>
     (snd (fst (fetch_sr_levels cfg tv_init get_hist now_get now_set symbol exchange st)) \<noteq> None
           \<longleftrightarrow>
      fst (fst (fetch_sr_levels cfg tv_init get_hist now_get now_set symbol exchange st)) = None)"
proof (rule conjI)
  note m = fetch_sr_levels_miss [OF assms, of get_hist now_set]
  show "fetch_sr_levels cfg tv_init get_hist now_get now_set symbol exchange st =
     (case get_hist symbol exchange SR_INTERVAL SR_BARS of
        HistRaised \<Rightarrow>
          ((None, Some ''Gagal mengambil data SR.''), st\<lparr>st_cache := cache', st_tv_client := True\<rparr>)
      | HistNone \<Rightarrow>
          ((None, Some ''Data SR tidak tersedia.''), st\<lparr>st_cache := cache', st_tv_client := True\<rparr>)
      | HistFrame bars \<Rightarrow>
          if bars = []
          then ((None, Some ''Data SR tidak tersedia.''),
                st\<lparr>st_cache := cache', st_tv_client := True\<rparr>)
          else
            (let b = (if 2 \<le> length bars then bars ! (length bars - 2) else last bars)
             in case (safe_float (b_high b), safe_float (b_low b), safe_float (b_close b)) of
                  (Some h, Some l, Some c) \<Rightarrow>
                    if feq h l
                    then ((None, Some ''Data SR tidak valid.''),
                          st\<lparr>st_cache := cache', st_tv_client := True\<rparr>)
                    else ((Some (SRData (pivot_levels h l c (b_time b))), None),
                          st\<lparr>st_cache :=
                               cache'(exchange @ '':'' @ symbol @ '':sr:1d:3'' \<mapsto>
                                 (now_set, SRData (pivot_levels h l c (b_time b)))),
                             st_tv_client := True\<rparr>)
                | _ \<Rightarrow> ((None, Some ''Data SR tidak valid.''),
                        st\<lparr>st_cache := cache', st_tv_client := True\<rparr>)))"
  proof (cases "get_hist symbol exchange SR_INTERVAL SR_BARS")
    case HistRaised
    then show ?thesis unfolding m by simp
  next
    case HistNone
    then show ?thesis unfolding m by simp
  next
    case (HistFrame bars)
    show ?thesis
    proof (cases "bars = []")
      case True
      with HistFrame show ?thesis unfolding m by simp
    next
      case False
      note sb = select_bar_index [OF False]
      from HistFrame False show ?thesis
        unfolding m by (simp add: sb Let_def split: option.splits)
    qed
  qed
  show "snd (fst (fetch_sr_levels cfg tv_init get_hist now_get now_set symbol exchange st)) \<noteq> None
           \<longleftrightarrow>
         fst (fst (fetch_sr_levels cfg tv_init get_hist now_get now_set symbol exchange st)) = None"
    unfolding m by (simp split: hist.splits option.splits)
qed

theorem fetch_sr_levels_outcome_witness:
  "cache_get (CACHE_TTL_SECONDS default_config) 1000 (''IDX'' @ '':'' @ ''BBCA'' @ '':sr:1d:3'')
     (st_cache initial_world) = (None, Map.empty) \<and>
   \<not> truthy (st_tv_client_error initial_world) \<and>
   scenario_upstream ''BBCA'' ''IDX'' SR_INTERVAL SR_BARS = HistFrame scenario_bars \<and>
   fetch_sr_levels default_config None scenario_upstream 1000 1001 ''BBCA'' ''IDX'' initial_world =
     ((Some (SRData (pivot_levels (Fin 102) (Fin 97) (Fin 100) (Some ''2024-01-02 00:00:00''))),
       None),
      initial_world
        \<lparr>st_cache :=
           [''IDX:BBCA:sr:1d:3'' \<mapsto>
              (1001, SRData (pivot_levels (Fin 102) (Fin 97) (Fin 100)
                               (Some ''2024-01-02 00:00:00'')))],
         st_tv_client := True\<rparr>)"
  using fetch_sr_levels_outcome [of default_config 1000 "''IDX''" "''BBCA''" initial_world
      Map.empty None scenario_upstream 1001]
  by (simp add: scenario_defs cache_get_def truthy_def feq_def SR_BARS_def SR_INTERVAL_def Let_def)

subsection \<open>Quote reply\<close>


lemma contains_iff: "contains s n \<longleftrightarrow> (\<exists>pre post. s = pre @ n @ post)"
proof (induction s)
  case Nil
  then show ?case by auto
next
  case (Cons c cs)
  have "startswith (c # cs) n \<longleftrightarrow> (\<exists>post. c # cs = n @ post)"
    unfolding startswith_def by (metis append_eq_conv_conj)
  moreover have "(\<exists>pre post. c # cs = pre @ n @ post) \<longleftrightarrow>
      (\<exists>post. c # cs = n @ post) \<or> (\<exists>pre post. cs = pre @ n @ post)"
  proof
    assume "\<exists>pre post. c # cs = pre @ n @ post"
    then obtain pre post where e: "c # cs = pre @ n @ post" by blast
    show "(\<exists>post. c # cs = n @ post) \<or> (\<exists>pre post. cs = pre @ n @ post)"
    proof (cases pre)
      case Nil
      with e show ?thesis by auto
    next
      case (Cons a pre')
      with e have "cs = pre' @ n @ post" by simp
      then show ?thesis by blast
    qed
  next
    assume "(\<exists>post. c # cs = n @ post) \<or> (\<exists>pre post. cs = pre @ n @ post)"
    then show "\<exists>pre post. c # cs = pre @ n @ post"
    proof
      assume "\<exists>post. c # cs = n @ post"
      then obtain post where "c # cs = [] @ n @ post" by auto
      then show ?thesis by blast
    next
      assume "\<exists>pre post. cs = pre @ n @ post"
      then obtain pre post where "c # cs = (c # pre) @ n @ post" by auto
      then show ?thesis by blast
    qed
  qed
  ultimately show ?case using Cons.IH by simp
qed



lemma contains_suffix_part: "contains s (a @ b) \<Longrightarrow> contains s b"
  unfolding contains_iff by (metis append.assoc)


lemma bindE_simps [simp]: "bindE (Inr v) f = f v" "bindE (Inl e) f = Inl e"
  by (simp_all add: bindE_def)















subsection \<open>Dispatcher\<close>

lemma get_tv_client_rate_limit [simp]:
  "st_rate_limit (snd (get_tv_client tv_init st)) = st_rate_limit st"
  by (simp add: get_tv_client_def split: option.splits)

lemma send_text_rate_limit [simp]: "st_rate_limit (send_text c t st) = st_rate_limit st"
  by (simp add: send_text_def Let_def)

lemma fetch_quote_rate_limit [simp]:
  "st_rate_limit (snd (fetch_quote cfg tv_init get_hist t1 t2 symbol exchange st)) = st_rate_limit st"
proof -
  obtain cached cache' where cg: "cache_get (CACHE_TTL_SECONDS cfg) t1
      (exchange @ '':'' @ symbol @ '':'' @ TV_INTERVAL cfg) (st_cache st) = (cached, cache')"
    by (cases "cache_get (CACHE_TTL_SECONDS cfg) t1
      (exchange @ '':'' @ symbol @ '':'' @ TV_INTERVAL cfg) (st_cache st)")
  obtain tv st2 where g: "get_tv_client tv_init (st\<lparr>st_cache := cache'\<rparr>) = (tv, st2)"
    by (cases "get_tv_client tv_init (st\<lparr>st_cache := cache'\<rparr>)")
  have r: "st_rate_limit st2 = st_rate_limit st"
    using get_tv_client_rate_limit [of tv_init "st\<lparr>st_cache := cache'\<rparr>"] g by simp
  show ?thesis
    using cg g r unfolding fetch_quote_def
    by (simp add: Let_def split: option.splits hist.splits)
qed

lemma fetch_sr_levels_rate_limit [simp]:
  "st_rate_limit (snd (fetch_sr_levels cfg tv_init get_hist t1 t2 symbol exchange st)) = st_rate_limit st"
proof -
  obtain cached cache' where cg: "cache_get (CACHE_TTL_SECONDS cfg) t1
      (exchange @ '':'' @ symbol @ '':sr:1d:3'') (st_cache st) = (cached, cache')"
    by (cases "cache_get (CACHE_TTL_SECONDS cfg) t1
      (exchange @ '':'' @ symbol @ '':sr:1d:3'') (st_cache st)")
  obtain tv st2 where g: "get_tv_client tv_init (st\<lparr>st_cache := cache'\<rparr>) = (tv, st2)"
    by (cases "get_tv_client tv_init (st\<lparr>st_cache := cache'\<rparr>)")
  have r: "st_rate_limit st2 = st_rate_limit st"
    using get_tv_client_rate_limit [of tv_init "st\<lparr>st_cache := cache'\<rparr>"] g by simp
  show ?thesis
    using cg g r unfolding fetch_sr_levels_def
    by (simp add: Let_def split: option.splits hist.splits)
qed

lemma webhook_rate_limit_table:
  assumes "extract_message data = (Some text, Some chat_id, False)"
    and "text \<noteq> []" and "chat_id \<noteq> []"
    and "parse_command text = (Some command, symbol)" and "command \<noteq> []"
    and "rate_limit_ok (RATE_LIMIT_SECONDS cfg) (t_rate_limit clk) chat_id (st_rate_limit st) =
           ((ok, remaining), table)"
  shows "st_rate_limit (snd (webhook cfg tv_init get_hist clk data st)) = table"
proof -
  define st1 where "st1 = st\<lparr>st_rate_limit := table\<rparr>"
  have t1: "st_rate_limit st1 = table" by (simp add: st1_def)
  obtain qr st2 where q1: "fetch_quote cfg tv_init get_hist (t_quote_get clk) (t_quote_set clk)
      (IHSG_SYMBOL cfg) ''IDX'' st1 = (qr, st2)"
    by (cases "fetch_quote cfg tv_init get_hist (t_quote_get clk) (t_quote_set clk)
      (IHSG_SYMBOL cfg) ''IDX'' st1")
  have t2: "st_rate_limit st2 = table"
    using fetch_quote_rate_limit [of cfg tv_init get_hist "t_quote_get clk" "t_quote_set clk"
        "IHSG_SYMBOL cfg" "''IDX''" st1] q1 t1 by simp
  obtain qr' st3 where q2: "fetch_quote cfg tv_init get_hist (t_quote_get clk) (t_quote_set clk)
      (case symbol of Some s \<Rightarrow> s | None \<Rightarrow> []) ''IDX'' st1 = (qr', st3)"
    by (cases "fetch_quote cfg tv_init get_hist (t_quote_get clk) (t_quote_set clk)
      (case symbol of Some s \<Rightarrow> s | None \<Rightarrow> []) ''IDX'' st1")
  have t3: "st_rate_limit st3 = table"
    using fetch_quote_rate_limit [of cfg tv_init get_hist "t_quote_get clk" "t_quote_set clk"
        "case symbol of Some s \<Rightarrow> s | None \<Rightarrow> []" "''IDX''" st1] q2 t1 by simp
  obtain sr st4 where q3: "fetch_sr_levels cfg tv_init get_hist (t_sr_get clk) (t_sr_set clk)
      (case symbol of Some s \<Rightarrow> s | None \<Rightarrow> []) ''IDX'' st3 = (sr, st4)"
    by (cases "fetch_sr_levels cfg tv_init get_hist (t_sr_get clk) (t_sr_set clk)
      (case symbol of Some s \<Rightarrow> s | None \<Rightarrow> []) ''IDX'' st3")
  have t4: "st_rate_limit st4 = table"
    using fetch_sr_levels_rate_limit [of cfg tv_init get_hist "t_sr_get clk" "t_sr_set clk"
        "case symbol of Some s \<Rightarrow> s | None \<Rightarrow> []" "''IDX''" st3] q3 t3 by simp
  show ?thesis
    using assms q1 q2 q3 t1 t2 t3 t4 unfolding webhook_def st1_def [symmetric]
    by (simp add: truthy_def Let_def st1_def [symmetric] split: prod.splits option.splits sum.splits)
qed

lemma webhook_denied:
  assumes "extract_message data = (Some text, Some chat_id, False)"
    and "text \<noteq> []" and "chat_id \<noteq> []"
    and "parse_command text = (Some command, symbol)" and "command \<noteq> []"
    and "rate_limit_ok (RATE_LIMIT_SECONDS cfg) (t_rate_limit clk) chat_id (st_rate_limit st) =
           ((False, remaining), table)"
  shows "webhook cfg tv_init get_hist clk data st =
           (Inr ''rate_limited'',
            send_text chat_id (wait_message remaining) (st\<lparr>st_rate_limit := table\<rparr>))"
  using assms unfolding webhook_def by (simp add: truthy_def)

lemma webhook_help_allowed:
  assumes "extract_message data = (Some text, Some chat_id, False)"
    and "text \<noteq> []" and "chat_id \<noteq> []"
    and "parse_command text = (Some ''help'', symbol)"
    and "rate_limit_ok (RATE_LIMIT_SECONDS cfg) (t_rate_limit clk) chat_id (st_rate_limit st) =
           ((True, remaining), table)"
  shows "webhook cfg tv_init get_hist clk data st =
           (Inr ''ok'', send_text chat_id help_text (st\<lparr>st_rate_limit := table\<rparr>))"
  using assms unfolding webhook_def by (simp add: truthy_def)

lemma help_event_message: "extract_message help_event = (Some ''!help'', Some ''X'', False)"
  by (simp add: help_event_def extract_message_def py_or_def truthy_def)

lemma parse_help: "parse_command ''!help'' = (Some ''help'', None)"
  by (simp add: parse_command_examples)

lemma wait_message_4: "wait_message 4 = ''Mohon tunggu 4 detik sebelum request lagi.''"
  by (simp add: wait_message_def str_int_def digit_char_def ascii_digits_def)

lemma send_wait_4:
  "send_text ''X'' ''Mohon tunggu 4 detik sebelum request lagi.'' st =
     st\<lparr>st_outbox := st_outbox st @
        [(''X'', ''Mohon tunggu 4 detik sebelum request lagi.'' @ newline @ newline @ footer)]\<rparr>"
  by (simp add: send_text_def endswith_def rstrip_def is_space_def footer_def newline_def)

lemma send_help:
  "send_text ''X'' help_text st =
     st\<lparr>st_outbox := st_outbox st @ [(''X'', help_text @ newline @ newline @ footer)]\<rparr>"
  by (simp add: send_text_def help_text_def endswith_def rstrip_def is_space_def footer_def
      newline_def)

text \<open>
  C1 (as stated, refuted). A help request from a conversation whose last accepted request
  was one second ago, with a window of five seconds, is answered with the "please wait"
  text and the status \<^verbatim>\<open>rate_limited\<close>, not with the help text: the dispatcher calls the
  rate limiter before it looks at the command.
\<close>

theorem webhook_help_rate_limited_counterexample:
  "extract_message help_event = (Some ''!help'', Some ''X'', False) \<and>
   parse_command ''!help'' = (Some ''help'', None) \<and>
   webhook default_config None scenario_upstream (clock_at 101) help_event
       (initial_world\<lparr>st_rate_limit := [''X'' \<mapsto> 100]\<rparr>) =
     (Inr ''rate_limited'',
      initial_world\<lparr>st_rate_limit := [''X'' \<mapsto> 100],
         st_outbox := [(''X'', ''Mohon tunggu 4 detik sebelum request lagi.'' @ newline @ newline @ footer)]\<rparr>)"
proof -
  have rl: "rate_limit_ok (RATE_LIMIT_SECONDS default_config) (t_rate_limit (clock_at 101)) ''X''
      (st_rate_limit (initial_world\<lparr>st_rate_limit := [''X'' \<mapsto> 100]\<rparr>)) =
        ((False, 4), [''X'' \<mapsto> 100])"
    by (simp add: default_config_def clock_at_def rate_limit_ok_def py_int_def)
  have "webhook default_config None scenario_upstream (clock_at 101) help_event
       (initial_world\<lparr>st_rate_limit := [''X'' \<mapsto> 100]\<rparr>) =
     (Inr ''rate_limited'',
      send_text ''X'' (wait_message 4) (initial_world\<lparr>st_rate_limit := [''X'' \<mapsto> 100]\<rparr>))"
    using webhook_denied [OF help_event_message _ _ parse_help _ rl, of None scenario_upstream]
    by simp
  then show ?thesis
    by (simp add: help_event_message parse_help wait_message_4 send_wait_4 initial_world_def)
qed

text \<open>
  C1 (amended). Help is not exempt. For every inbound event that carries a text and a
  conversation, is not self-originated and parses to a command (help, index quote or symbol
  quote), the dispatcher calls the rate limiter first, and the table the limiter returns is
  the table after the request. When the limiter denies, the reply is the "please wait" text
  and the status is \<^verbatim>\<open>rate_limited\<close>, whatever the command. When it allows and the command is
  help, the reply is the static help text, the status is \<^verbatim>\<open>ok\<close>, and the time of the request
  has been recorded for the conversation.
\<close>

theorem webhook_every_command_rate_limited:
  assumes "extract_message data = (Some text, Some chat_id, False)"
    and "text \<noteq> []" and "chat_id \<noteq> []"
    and "parse_command text = (Some command, symbol)" and "command \<noteq> []"
    and "rate_limit_ok (RATE_LIMIT_SECONDS cfg) (t_rate_limit clk) chat_id (st_rate_limit st) =
           ((ok, remaining), table)"
  shows "st_rate_limit (snd (webhook cfg tv_init get_hist clk data st)) = table \<and>
         (\<not> ok \<longrightarrow>
            webhook cfg tv_init get_hist clk data st =
              (Inr ''rate_limited'',
               send_text chat_id (wait_message remaining) (st\<lparr>st_rate_limit := table\<rparr>))) \<and>
         (ok \<and> command = ''help'' \<longrightarrow>
            webhook cfg tv_init get_hist clk data st =
              (Inr ''ok'', send_text chat_id help_text (st\<lparr>st_rate_limit := table\<rparr>)) \<and>
            table = (st_rate_limit st)(chat_id \<mapsto> t_rate_limit clk))"
proof -
  have w0: "st_rate_limit (snd (webhook cfg tv_init get_hist clk data st)) = table"
    by (rule webhook_rate_limit_table [OF assms])
  have t: "ok \<Longrightarrow> table = (st_rate_limit st)(chat_id \<mapsto> t_rate_limit clk)"
    using assms(6) rate_limit_ok_frame_allowed
      [of "RATE_LIMIT_SECONDS cfg" "t_rate_limit clk" chat_id "st_rate_limit st"] by simp
  have w1: "\<not> ok \<Longrightarrow> webhook cfg tv_init get_hist clk data st =
              (Inr ''rate_limited'',
               send_text chat_id (wait_message remaining) (st\<lparr>st_rate_limit := table\<rparr>))"
    using webhook_denied [OF assms(1-5), of cfg clk st remaining table tv_init get_hist] assms(6)
    by simp
  have w2: "ok \<Longrightarrow> command = ''help'' \<Longrightarrow> webhook cfg tv_init get_hist clk data st =
              (Inr ''ok'', send_text chat_id help_text (st\<lparr>st_rate_limit := table\<rparr>))"
    using webhook_help_allowed [OF assms(1-3), of symbol cfg clk st remaining table tv_init get_hist]
      assms(4,6) by simp
  from w0 t w1 w2 show ?thesis by blast
qed

theorem webhook_every_command_rate_limited_witness:
  "extract_message help_event = (Some ''!help'', Some ''X'', False) \<and>
   ''!help'' \<noteq> [] \<and> ''X'' \<noteq> [] \<and>
   parse_command ''!help'' = (Some ''help'', None) \<and> ''help'' \<noteq> [] \<and>
   rate_limit_ok (RATE_LIMIT_SECONDS default_config) (t_rate_limit (clock_at 101)) ''X''
     (st_rate_limit (initial_world\<lparr>st_rate_limit := [''X'' \<mapsto> 100]\<rparr>)) =
       ((False, 4), [''X'' \<mapsto> 100]) \<and>
   webhook default_config None scenario_upstream (clock_at 101) help_event
       (initial_world\<lparr>st_rate_limit := [''X'' \<mapsto> 100]\<rparr>) =
     (Inr ''rate_limited'',
      send_text ''X'' (wait_message 4) (initial_world\<lparr>st_rate_limit := [''X'' \<mapsto> 100]\<rparr>)) \<and>
   st_rate_limit (snd (webhook default_config None scenario_upstream (clock_at 101) help_event
       (initial_world\<lparr>st_rate_limit := [''X'' \<mapsto> 100]\<rparr>))) = [''X'' \<mapsto> 100] \<and>
   rate_limit_ok (RATE_LIMIT_SECONDS default_config) (t_rate_limit (clock_at 101)) ''X''
     (st_rate_limit initial_world) = ((True, 0), [''X'' \<mapsto> 101]) \<and>
   webhook default_config None scenario_upstream (clock_at 101) help_event initial_world =
     (Inr ''ok'', send_text ''X'' help_text (initial_world\<lparr>st_rate_limit := [''X'' \<mapsto> 101]\<rparr>))"
proof -
  have denied: "rate_limit_ok (RATE_LIMIT_SECONDS default_config) (t_rate_limit (clock_at 101)) ''X''
      (st_rate_limit (initial_world\<lparr>st_rate_limit := [''X'' \<mapsto> 100]\<rparr>)) =
        ((False, 4), [''X'' \<mapsto> 100])"
    by (simp add: default_config_def clock_at_def rate_limit_ok_def py_int_def)
  have allowed: "rate_limit_ok (RATE_LIMIT_SECONDS default_config) (t_rate_limit (clock_at 101)) ''X''
      (st_rate_limit initial_world) = ((True, 0), [''X'' \<mapsto> 101])"
    by (simp add: default_config_def clock_at_def rate_limit_ok_def initial_world_def)
  have ne: "''!help'' \<noteq> []" "''X'' \<noteq> []" "''help'' \<noteq> []" by simp_all
  note d = webhook_every_command_rate_limited
    [OF help_event_message ne(1,2) parse_help ne(3) denied, of None scenario_upstream]
  note a = webhook_every_command_rate_limited
    [OF help_event_message ne(1,2) parse_help ne(3) allowed, of None scenario_upstream]
  from d a show ?thesis
    using help_event_message parse_help denied allowed by simp
qed

subsection \<open>Rounding to the nearest double\<close>

text \<open>
  Rounding is monotone, leaves the values of doubles as they are, and doubling the value of
  a double needs no rounding. These are the facts about IEEE arithmetic that the order of the
  pivot levels rests on.
\<close>

lemma rhe_of_int [simp]: "round_half_even (of_int n) = n"
  by (simp add: round_half_even_def)





lemma bitlen_bounds:
  "0 < n \<Longrightarrow> 2 ^ (bitlen n - 1) \<le> n \<and> n < 2 ^ bitlen n"
proof (induction n rule: bitlen.induct)
  case (1 n)
  show ?case
  proof (cases "n div 2 = 0")
    case True
    with 1 have "n = 1" by (simp add: div_eq_0_iff) 
    then show ?thesis by (simp add: bitlen.simps)
  next
    case False
    with 1 have ih: "2 ^ (bitlen (n div 2) - 1) \<le> n div 2" "n div 2 < 2 ^ bitlen (n div 2)"
      by auto
    have bl: "bitlen n = Suc (bitlen (n div 2))" using 1 by (simp add: bitlen.simps)
    have pos: "0 < bitlen (n div 2)" using False by (simp add: bitlen.simps)
    from pos obtain k where k: "bitlen (n div 2) = Suc k" by (cases "bitlen (n div 2)") auto
    define m where "m = n div 2"
    define P :: nat where "P = 2 ^ k"
    have n: "n = 2 * m + n mod 2" unfolding m_def by simp
    have r: "n mod 2 < 2" by simp
    from ih have "P \<le> m" "m < 2 * P" unfolding k m_def P_def by simp_all
    with n r have "2 * P \<le> n" "n < 2 * (2 * P)" by linarith+
    then show ?thesis unfolding bl k P_def by simp
  qed
qed

lemma pow2_powi: "pow2 k = 2 powi k"
proof (cases "0 \<le> k")
  case True
  then show ?thesis by (simp add: pow2_def power_int_def)
next
  case False
  then show ?thesis by (simp add: pow2_def power_int_def power_one_over inverse_eq_divide)
qed

lemma pow2_pos [simp]: "0 < pow2 k"
  by (simp add: pow2_powi)

lemma pow2_nonzero [simp]: "pow2 k \<noteq> 0"
  by (simp add: pow2_powi)



lemma pow2_mono: "a \<le> b \<Longrightarrow> pow2 a \<le> pow2 b"
  by (simp add: pow2_powi power_int_increasing)

lemma pow2_strict_mono: "a < b \<Longrightarrow> pow2 a < pow2 b"
  by (simp add: pow2_powi power_int_strict_increasing)

lemma pow2_less_iff: "pow2 a < pow2 b \<longleftrightarrow> a < b"
  by (metis pow2_mono pow2_strict_mono not_less)

lemma pow2_nat: "pow2 (int n) = 2 ^ n"
  by (simp add: pow2_def)


lemma pow2_neg_nat: "pow2 (- int k) = 1 / 2 ^ k"
  by (simp add: pow2_powi power_int_minus_divide)

lemma binade_bounds:
  assumes "0 < a"
  shows "pow2 (binade a) \<le> a \<and> a < pow2 (binade a + 1)"
proof (cases "1 \<le> a")
  case True
  define n where "n = nat \<lfloor>a\<rfloor>"
  from True have fl: "1 \<le> \<lfloor>a\<rfloor>" by simp
  then have npos: "0 < n" unfolding n_def by simp
  have nfl: "(of_nat n :: rat) = of_int \<lfloor>a\<rfloor>" unfolding n_def using fl by simp
  from bitlen_bounds [OF npos] have b: "2 ^ (bitlen n - 1) \<le> n" "n < 2 ^ bitlen n" by simp_all
  have blpos: "0 < bitlen n" using npos by (simp add: bitlen.simps)
  have e: "binade a = int (bitlen n - 1)"
    using True blpos by (simp add: binade_def n_def of_nat_diff)
  have "(of_nat (2 ^ (bitlen n - 1)) :: rat) \<le> of_nat n" using b(1) by (simp only: of_nat_le_iff)
  also have "\<dots> \<le> a" unfolding nfl by simp
  finally have lo: "pow2 (binade a) \<le> a" unfolding e pow2_nat by simp
  have "a < of_int \<lfloor>a\<rfloor> + 1" by linarith
  also have "\<dots> = of_nat (n + 1)" using nfl by simp
  also have "\<dots> \<le> of_nat (2 ^ bitlen n)" using b(2) by (simp only: of_nat_le_iff)
  finally have "a < 2 ^ bitlen n" by simp
  moreover have "binade a + 1 = int (bitlen n)" using e blpos by simp
  ultimately have hi: "a < pow2 (binade a + 1)" by (simp add: pow2_nat)
  from lo hi show ?thesis by blast
next
  case False
  with assms have a1: "a < 1" by simp
  define m where "m = \<lceil>1 / a\<rceil>"
  define n where "n = nat (m - 1)"
  from assms a1 have "1 < 1 / a" by simp
  then have m2: "2 \<le> m" unfolding m_def by linarith
  then have npos: "0 < n" unfolding n_def by simp
  have nm: "(of_nat n :: rat) = of_int m - 1" unfolding n_def using m2 by simp
  from bitlen_bounds [OF npos] have b: "2 ^ (bitlen n - 1) \<le> n" "n < 2 ^ bitlen n" by simp_all
  have blpos: "0 < bitlen n" using npos by (simp add: bitlen.simps)
  have e: "binade a = - int (bitlen n)" using False by (simp add: binade_def n_def m_def)
  have up: "1 / a \<le> of_int m" unfolding m_def by linarith
  have low: "of_int m - 1 < 1 / a" unfolding m_def by linarith
  have "(of_nat (n + 1) :: rat) \<le> of_nat (2 ^ bitlen n)"
    using b(2) by (simp only: of_nat_le_iff)
  then have "of_int m \<le> (2 :: rat) ^ bitlen n" using nm by simp
  with up have "1 / a \<le> 2 ^ bitlen n" by linarith
  then have "1 \<le> 2 ^ bitlen n * a" using assms by (simp add: field_simps)
  then have lo: "pow2 (binade a) \<le> a"
    unfolding e pow2_neg_nat by (simp add: field_simps)
  have "(of_nat (2 ^ (bitlen n - 1)) :: rat) \<le> of_nat n" using b(1) by (simp only: of_nat_le_iff)
  then have "(2 :: rat) ^ (bitlen n - 1) < 1 / a" using nm low by simp
  then have "2 ^ (bitlen n - 1) * a < 1" using assms by (simp add: field_simps)
  moreover have "pow2 (binade a + 1) = 1 / 2 ^ (bitlen n - 1)"
  proof -
    have "binade a + 1 = - int (bitlen n - 1)" using e blpos by simp
    then show ?thesis by (simp only: pow2_neg_nat)
  qed
  ultimately have hi: "a < pow2 (binade a + 1)"
    by (simp add: pos_less_divide_eq mult.commute)
  from lo hi show ?thesis by blast
qed

lemma binade_unique:
  assumes "0 < a" "pow2 e \<le> a" "a < pow2 (e + 1)"
  shows "binade a = e"
proof -
  from binade_bounds [OF assms(1)] have b: "pow2 (binade a) \<le> a" "a < pow2 (binade a + 1)"
    by simp_all
  from b(1) assms(3) have "pow2 (binade a) < pow2 (e + 1)" by linarith
  then have 1: "binade a < e + 1" by (simp add: pow2_less_iff)
  from assms(2) b(2) have "pow2 e < pow2 (binade a + 1)" by linarith
  then have 2: "e < binade a + 1" by (simp add: pow2_less_iff)
  from 1 2 show ?thesis by simp
qed



lemma spacing_pos [simp]: "0 < spacing a"
  by (simp add: spacing_def)

lemma spacing_nonneg [simp]: "0 \<le> spacing a"
  by (rule less_imp_le) simp

lemma spacing_nonzero [simp]: "spacing a \<noteq> 0"
proof
  assume "spacing a = 0"
  with spacing_pos [of a] show False by (simp del: spacing_pos)
qed












lemma binade_pow2 [simp]: "binade (pow2 e) = e"
  by (rule binade_unique) (simp_all add: pow2_strict_mono)






lemma rhe_zero [simp]: "round_half_even 0 = 0"
  using rhe_of_int [of 0] by simp

lemma round_mag_zero [simp]: "round_mag 0 = 0"
  by (simp add: round_mag_def)



















subsection \<open>Pivot levels\<close>







end
